theory Spec2Isabelle
  imports Complex_Main "HOL-Library.AList"
begin

section \<open>Data model (src/types.ts)\<close>

text \<open>
  JavaScript numbers that the code only stores, compares and passes on are modelled as
  rationals (every finite double is one); the code does no arithmetic on them.
  Strings are \<open>string\<close>. An optional field \<open>f?: T\<close> is a \<open>T option\<close>.
\<close>

datatype role = System | User | Assistant

record message =
  role :: role
  content :: string

datatype json = JNull | JBool bool | JNum rat | JStr string | JArr "json list"
  | JObj "(string \<times> json) list"

text \<open>The five sampling controls; \<open>rat sampling\<close> when every field is set,
  \<open>rat option sampling\<close> where each field is optional.\<close>

record 'a sampling =
  temperature :: 'a
  max_tokens :: 'a
  top_p :: 'a
  frequency_penalty :: 'a
  presence_penalty :: 'a

record meta =
  title :: "string option"
  tags :: "string list option"
  extra :: "(string \<times> json) list"

text \<open>The fields that \<open>Conversation\<close> and \<open>ConversationMetadata\<close> share.\<close>

record entry =
  conv_id :: string
  model :: string
  created_at :: string
  updated_at :: string
  metadata :: "meta option"

record Conversation = entry +
  parameters :: "rat sampling"
  messages :: "message list"

record ConversationMetadata = entry +
  message_count :: nat

datatype error =
    ChatTimeoutError string
  | ConversationNotFoundError string
  | ConversationCreateError string
  | ConversationStorageError string
  | Error string string

text \<open>\<open>error.message\<close>; \<open>Error name message\<close> is any other Error object.\<close>

fun error_message :: "error \<Rightarrow> string" where
  "error_message (ChatTimeoutError m) = m"
| "error_message (ConversationNotFoundError conversationId) =
     ''Conversation not found: '' @ conversationId"
| "error_message (ConversationCreateError m) = m"
| "error_message (ConversationStorageError m) = m"
| "error_message (Error n m) = m"

fun error_name :: "error \<Rightarrow> string" where
  "error_name (ChatTimeoutError m) = ''ChatTimeoutError''"
| "error_name (ConversationNotFoundError conversationId) = ''ConversationNotFoundError''"
| "error_name (ConversationCreateError m) = ''ConversationCreateError''"
| "error_name (ConversationStorageError m) = ''ConversationStorageError''"
| "error_name (Error n m) = n"

section \<open>The process and its environment\<close>

text \<open>
  The text of a file is represented by what \<open>JSON.parse\<close> makes of it: a record of the
  Conversation shape, or a SyntaxError with its message. \<open>JSON.stringify\<close> of a
  Conversation yields text that parses back to the same record.
\<close>

datatype file_text = Json Conversation | NotJson string

record request =
  req_model :: string
  req_messages :: "message list"
  req_sampling :: "rat sampling"

text \<open>What the process does to the outside, in order: progress reports, completed file
  writes, requests to the completion API.\<close>

datatype event = Progress nat | Wrote string Conversation | Requested request

text \<open>
  Conversation objects live in \<open>heap\<close> and are referred to by address, since the
  manager's Map and the local variables of a tool share them and mutate them in place;
  \<open>allocated\<close> is the number of objects made so far, the address of the next one.
  \<open>dir\<close> holds the entries of CONVERSATION_DIR by file name, in \<open>readdir\<close> order.
  \<open>io_errors\<close> says for the k-th file system call of the process whether the operating
  system refuses it, and with what message; \<open>clock\<close> gives the successive values of
  \<open>new Date().toISOString()\<close>.
\<close>

record world =
  heap :: "nat \<Rightarrow> Conversation"
  allocated :: nat
  conversations :: "string \<rightharpoonup> nat"
  dir :: "(string \<times> file_text) list"
  io_errors :: "nat \<Rightarrow> string option"
  io_calls :: nat
  clock :: "nat \<Rightarrow> string"
  clock_reads :: nat
  trace :: "event list"

definition fs_call :: "world \<Rightarrow> string option \<times> world" where
  "fs_call w = (io_errors w (io_calls w), w\<lparr>io_calls := io_calls w + 1\<rparr>)"

definition Date_now :: "world \<Rightarrow> string \<times> world" where
  "Date_now w = (clock w (clock_reads w), w\<lparr>clock_reads := clock_reads w + 1\<rparr>)"

definition emit :: "event \<Rightarrow> world \<Rightarrow> world" where
  "emit e w = w\<lparr>trace := trace w @ [e]\<rparr>"

definition reportProgress :: "nat \<Rightarrow> world \<Rightarrow> world" where
  "reportProgress p w = emit (Progress p) w"

subsection \<open>File system calls (fs/promises)\<close>

definition mkdir :: "world \<Rightarrow> (string + unit) \<times> world" where
  "mkdir w = (case fs_call w of
     (Some m, w1) \<Rightarrow> (Inl m, w1)
   | (None, w1) \<Rightarrow> (Inr (), w1))"

definition readFile :: "string \<Rightarrow> world \<Rightarrow> (string + file_text) \<times> world" where
  "readFile name w = (case fs_call w of
     (Some m, w1) \<Rightarrow> (Inl m, w1)
   | (None, w1) \<Rightarrow> (case map_of (dir w1) name of
        None \<Rightarrow> (Inl (''ENOENT: no such file or directory, open '' @ name), w1)
      | Some t \<Rightarrow> (Inr t, w1)))"

definition writeFile :: "string \<Rightarrow> Conversation \<Rightarrow> world \<Rightarrow> (string + unit) \<times> world" where
  "writeFile name c w = (case fs_call w of
     (Some m, w1) \<Rightarrow> (Inl m, w1)
   | (None, w1) \<Rightarrow>
       (Inr (), emit (Wrote name c) (w1\<lparr>dir := AList.update name (Json c) (dir w1)\<rparr>)))"

text \<open>The names directly inside CONVERSATION_DIR: those without a separator.\<close>

definition entries :: "world \<Rightarrow> string list" where
  "entries w = filter (\<lambda>n. CHR ''/'' \<notin> set n) (map fst (dir w))"

definition readdir :: "world \<Rightarrow> (string + string list) \<times> world" where
  "readdir w = (case fs_call w of
     (Some m, w1) \<Rightarrow> (Inl m, w1)
   | (None, w1) \<Rightarrow> (Inr (entries w1), w1))"

definition unlink :: "string \<Rightarrow> world \<Rightarrow> (string + unit) \<times> world" where
  "unlink name w = (case fs_call w of
     (Some m, w1) \<Rightarrow> (Inl m, w1)
   | (None, w1) \<Rightarrow> (case map_of (dir w1) name of
        None \<Rightarrow> (Inl (''ENOENT: no such file or directory, unlink '' @ name), w1)
      | Some t \<Rightarrow> (Inr (), w1\<lparr>dir := AList.delete name (dir w1)\<rparr>)))"

fun JSON_parse :: "file_text \<Rightarrow> string + Conversation" where
  "JSON_parse (Json c) = Inr c"
| "JSON_parse (NotJson m) = Inl m"

section \<open>Storage (src/utils.ts)\<close>

definition ensureConversationDir :: "world \<Rightarrow> (error + unit) \<times> world" where
  "ensureConversationDir w = (case mkdir w of
     (Inl m, w1) \<Rightarrow>
       (Inl (ConversationStorageError (''Failed to create conversations directory: '' @ m)), w1)
   | (Inr u, w1) \<Rightarrow> (Inr (), w1))"

text \<open>The file of a conversation, by its name inside CONVERSATION_DIR. \<open>path.join\<close>
  would also normalise an id that has \<open>.\<close> or \<open>..\<close> segments; that is not modelled.\<close>

definition getConversationFilePath :: "string \<Rightarrow> string" where
  "getConversationFilePath conversationId = conversationId @ ''.json''"

definition readConversation :: "string \<Rightarrow> world \<Rightarrow> (error + Conversation) \<times> world" where
  "readConversation conversationId w =
     (let filePath = getConversationFilePath conversationId in
      case readFile filePath w of
        (Inl m, w1) \<Rightarrow>
          (Inl (ConversationStorageError (''Failed to read conversation: '' @ m)), w1)
      | (Inr data, w1) \<Rightarrow> (case JSON_parse data of
           Inl m \<Rightarrow> (Inl (ConversationStorageError (''Failed to read conversation: '' @ m)), w1)
         | Inr c \<Rightarrow> (Inr c, w1)))"

definition writeConversation :: "Conversation \<Rightarrow> world \<Rightarrow> (error + unit) \<times> world" where
  "writeConversation conversation w = (case ensureConversationDir w of
     (Inl e, w1) \<Rightarrow>
       (Inl (ConversationStorageError (''Failed to write conversation: '' @ error_message e)), w1)
   | (Inr u, w1) \<Rightarrow>
       (let filePath = getConversationFilePath (conv_id conversation) in
        case writeFile filePath conversation w1 of
          (Inl m, w2) \<Rightarrow>
            (Inl (ConversationStorageError (''Failed to write conversation: '' @ m)), w2)
        | (Inr u, w2) \<Rightarrow> (Inr (), w2)))"

definition deleteConversation :: "string \<Rightarrow> world \<Rightarrow> (error + unit) \<times> world" where
  "deleteConversation conversationId w =
     (let filePath = getConversationFilePath conversationId in
      case unlink filePath w of
        (Inl m, w1) \<Rightarrow>
          (Inl (ConversationStorageError (''Failed to delete conversation: '' @ m)), w1)
      | (Inr u, w1) \<Rightarrow> (Inr (), w1))"

text \<open>
  \<open>listConversations\<close> sorts with \<open>Array.prototype.sort\<close>, which is stable; \<open>sort_with\<close> is
  the stable insertion sort for a comparator that returns a number (NaN counting as 0, as
  the language prescribes).
\<close>

fun insert_with :: "('a \<Rightarrow> 'a \<Rightarrow> int) \<Rightarrow> 'a \<Rightarrow> 'a list \<Rightarrow> 'a list" where
  "insert_with cmp x [] = [x]"
| "insert_with cmp x (y # ys) =
     (if cmp x y \<le> 0 then x # y # ys else y # insert_with cmp x ys)"

definition sort_with :: "('a \<Rightarrow> 'a \<Rightarrow> int) \<Rightarrow> 'a list \<Rightarrow> 'a list" where
  "sort_with cmp xs = foldr (insert_with cmp) xs []"

text \<open>\<open>a - b\<close> on the results of \<open>getTime()\<close>, where \<open>None\<close> is NaN.\<close>

definition minus_time :: "int option \<Rightarrow> int option \<Rightarrow> int" where
  "minus_time a b = (case (a, b) of (Some x, Some y) \<Rightarrow> x - y | _ \<Rightarrow> 0)"

definition endsWith :: "string \<Rightarrow> string \<Rightarrow> bool" where
  "endsWith s suffix =
     (length suffix \<le> length s \<and> drop (length s - length suffix) s = suffix)"

text \<open>\<open>path.basename(file, ext)\<close> of a directory entry, which has no separator in it.\<close>

definition basename :: "string \<Rightarrow> string \<Rightarrow> string" where
  "basename file ext =
     (if endsWith file ext then take (length file - length ext) file else file)"

text \<open>
  \<open>getTime\<close> stands for \<open>new Date(s).getTime()\<close>, with \<open>None\<close> for NaN; it is a parameter,
  since the date formats that the runtime accepts go beyond the ISO format.
\<close>

fun list_files :: "string list \<Rightarrow> world \<Rightarrow> ConversationMetadata list \<times> world" where
  "list_files [] w = ([], w)"
| "list_files (file # jsonFiles) w =
     (let conversationId = basename file ''.json'' in
      case readConversation conversationId w of
        (Inr conversationData, w1) \<Rightarrow>
          (case list_files jsonFiles w1 of (metadataList, w2) \<Rightarrow>
            (\<lparr>conv_id = conv_id conversationData, model = model conversationData,
               created_at = created_at conversationData,
               updated_at = updated_at conversationData,
               metadata = metadata conversationData,
               message_count = length (messages conversationData)\<rparr> # metadataList, w2))
      | (Inl e, w1) \<Rightarrow> list_files jsonFiles w1)"

definition listConversations ::
  "(string \<Rightarrow> int option) \<Rightarrow> world \<Rightarrow> (error + ConversationMetadata list) \<times> world" where
  "listConversations getTime w = (case ensureConversationDir w of
     (Inl e, w1) \<Rightarrow>
       (Inl (ConversationStorageError (''Failed to list conversations: '' @ error_message e)), w1)
   | (Inr u, w1) \<Rightarrow> (case readdir w1 of
        (Inl m, w2) \<Rightarrow>
          (Inl (ConversationStorageError (''Failed to list conversations: '' @ m)), w2)
      | (Inr files, w2) \<Rightarrow>
          (let jsonFiles = filter (\<lambda>file. endsWith file ''.json'') files in
           case list_files jsonFiles w2 of (metadataList, w3) \<Rightarrow>
             (Inr (sort_with (\<lambda>a b. minus_time (getTime (updated_at b)) (getTime (updated_at a)))
                 metadataList), w3))))"

subsection \<open>Sequential ids\<close>

text \<open>
  \<open>getNextConversationId\<close> computes with JavaScript numbers, which are doubles. The
  numbers it can meet are NaN, the two infinities and doubles whose value is an integer;
  \<open>Num i\<close> is the double of value \<open>i\<close> (the two zeros are not told apart; both print as
  "0").
\<close>

datatype number = NaN | Num int | Infinity | MinusInfinity

fun bit_length :: "nat \<Rightarrow> nat" where
  "bit_length n = (if n = 0 then 0 else Suc (bit_length (n div 2)))"

declare bit_length.simps [simp del]

text \<open>
  The double nearest to a natural number, ties going to the even mantissa of 53 bits:
  every number up to \<open>2 ^ 53\<close> is a double; above, the low bits are rounded away. A
  result of \<open>2 ^ 1024\<close> or more stands for overflow.
\<close>

definition round_double :: "nat \<Rightarrow> nat" where
  "round_double n =
     (if n \<le> 2 ^ 53 then n
      else (let e = bit_length n - 53; q = n div 2 ^ e; r = n mod 2 ^ e; half = 2 ^ (e - 1)
            in (if r > half \<or> (r = half \<and> odd q) then q + 1 else q) * 2 ^ e))"

definition to_double :: "bool \<Rightarrow> nat \<Rightarrow> number" where
  "to_double negative n =
     (let r = round_double n in
      if r \<ge> 2 ^ 1024 then (if negative then MinusInfinity else Infinity)
      else Num (if negative then - int r else int r))"

definition isDigit :: "char \<Rightarrow> bool" where
  "isDigit c = (48 \<le> (of_char c :: nat) \<and> (of_char c :: nat) \<le> 57)"

definition digit_val :: "char \<Rightarrow> nat" where
  "digit_val c = of_char c - 48"

definition digit_char :: "nat \<Rightarrow> char" where
  "digit_char d = char_of (48 + d)"

definition isWhiteSpace :: "char \<Rightarrow> bool" where
  "isWhiteSpace c = ((of_char c :: nat) \<in> {9, 10, 11, 12, 13, 32})"

definition digits_value :: "string \<Rightarrow> nat" where
  "digits_value Z = foldl (\<lambda>acc c. 10 * acc + digit_val c) 0 Z"

text \<open>
  \<open>parseInt(s, 10)\<close>: white space is skipped (its ASCII part here), then a sign, then the
  digits are read; the result is the double nearest to their value, or NaN when there is
  no digit.
\<close>

definition parseInt10 :: "string \<Rightarrow> number" where
  "parseInt10 s =
     (let S = dropWhile isWhiteSpace s;
          negative = (S \<noteq> [] \<and> hd S = CHR ''-'');
          S = (if S \<noteq> [] \<and> (hd S = CHR ''+'' \<or> hd S = CHR ''-'') then tl S else S);
          Z = takeWhile isDigit S
      in if Z = [] then NaN else to_double negative (digits_value Z))"

fun decimal :: "nat \<Rightarrow> string" where
  "decimal n = (if n < 10 then [digit_char n] else decimal (n div 10) @ [digit_char (n mod 10)])"

declare decimal.simps [simp del]

text \<open>
  \<open>String(x)\<close> of a double with a natural value. Up to \<open>2 ^ 53\<close> it is the decimal
  numeral. Above, it is made of the fewest digits \<open>s\<close> such that \<open>s\<close> times a power of ten
  still rounds to \<open>x\<close> (the closest such \<open>s\<close>, the even one on a tie), followed by zeros
  below \<open>10 ^ 21\<close> and written with an exponent from there on (where the next power of
  ten itself rounds to \<open>x\<close>, the single digit 1 does).
\<close>

definition candidates :: "nat \<Rightarrow> nat \<Rightarrow> nat list" where
  "candidates x p =
     (let k = length (decimal x) - p in
      filter (\<lambda>s. 10 ^ (k - 1) \<le> s \<and> s < 10 ^ k \<and> round_double (s * 10 ^ p) = x)
        [x div 10 ^ p, x div 10 ^ p + 1])"

definition pick :: "nat \<Rightarrow> nat \<Rightarrow> nat option" where
  "pick x p = (case candidates x p of
     [] \<Rightarrow> None
   | [s] \<Rightarrow> Some s
   | s # t # rest \<Rightarrow>
       (let below = x - s * 10 ^ p; above = t * 10 ^ p - x in
        if below < above \<or> (below = above \<and> even s) then Some s else Some t))"

fun shortest :: "nat \<Rightarrow> nat \<Rightarrow> nat \<times> nat" where
  "shortest x 0 = (x, 0)"
| "shortest x (Suc p) = (case pick x (Suc p) of
     Some s \<Rightarrow> (s, Suc p)
   | None \<Rightarrow> shortest x p)"

definition String_nat :: "nat \<Rightarrow> string" where
  "String_nat x =
     (if x \<le> 2 ^ 53 then decimal x
      else (case shortest x (length (decimal x) - 1) of (s, p) \<Rightarrow>
        if x < 10 ^ 21 then decimal s @ replicate p (CHR ''0'')
        else if round_double (10 ^ length (decimal x)) = x
        then ''1e+'' @ decimal (length (decimal x))
        else (let ds = decimal s in
              hd ds # (if tl ds = [] then [] else CHR ''.'' # tl ds) @ ''e+'' @
              decimal (length (decimal x) - 1))))"

fun String_number :: "number \<Rightarrow> string" where
  "String_number NaN = ''NaN''"
| "String_number (Num i) =
     (if i < 0 then CHR ''-'' # String_nat (nat (- i)) else String_nat (nat i))"
| "String_number Infinity = ''Infinity''"
| "String_number MinusInfinity = ''-Infinity''"

text \<open>\<open>Math.max(a, b)\<close> and \<open>a + 1\<close> on these numbers.\<close>

fun Math_max :: "number \<Rightarrow> number \<Rightarrow> number" where
  "Math_max NaN b = NaN"
| "Math_max a NaN = NaN"
| "Math_max Infinity b = Infinity"
| "Math_max a Infinity = Infinity"
| "Math_max MinusInfinity b = b"
| "Math_max a MinusInfinity = a"
| "Math_max (Num a) (Num b) = Num (max a b)"

fun plus_one :: "number \<Rightarrow> number" where
  "plus_one (Num i) =
     (if i + 1 < 0 then to_double True (nat (- (i + 1))) else to_double False (nat (i + 1)))"
| "plus_one a = a"

definition highest :: "string \<Rightarrow> number \<Rightarrow> number" where
  "highest file highestId =
     (let fileBaseName = basename file ''.json'';
          idNumber = parseInt10 fileBaseName
      in if idNumber \<noteq> NaN \<and> String_number idNumber = fileBaseName
         then Math_max highestId idNumber else highestId)"

definition getNextConversationId :: "world \<Rightarrow> (error + string) \<times> world" where
  "getNextConversationId w = (case ensureConversationDir w of
     (Inl e, w1) \<Rightarrow>
       (Inl (ConversationStorageError
          (''Failed to get next conversation ID: '' @ error_message e)), w1)
   | (Inr u, w1) \<Rightarrow> (case readdir w1 of
        (Inl m, w2) \<Rightarrow>
          (Inl (ConversationStorageError (''Failed to get next conversation ID: '' @ m)), w2)
      | (Inr files, w2) \<Rightarrow>
          (let jsonFiles = filter (\<lambda>file. endsWith file ''.json'') files;
               highestId = fold highest jsonFiles (Num 0)
           in (Inr (String_number (plus_one highestId)), w2))))"

section \<open>ConversationManager (src/conversation.ts)\<close>

text \<open>Logging has no effect on the state and is left out. A conversation object is
  passed around as its address in the heap.\<close>

record CreateConversationArgs =
  arg_model :: "string option"
  arg_system_prompt :: "string option"
  arg_parameters :: "rat option sampling option"
  arg_metadata :: "meta option"

text \<open>\<open>a ?? b\<close>, and \<open>p?.f\<close> on an optional object.\<close>

definition nullish :: "'a option \<Rightarrow> 'a \<Rightarrow> 'a" where
  "nullish a b = (case a of None \<Rightarrow> b | Some x \<Rightarrow> x)"

definition opt_chain :: "'p option \<Rightarrow> ('p \<Rightarrow> 'a option) \<Rightarrow> 'a option" where
  "opt_chain p f = (case p of None \<Rightarrow> None | Some x \<Rightarrow> f x)"

definition or_else :: "string \<Rightarrow> string \<Rightarrow> string" where
  "or_else s d = (if s = [] then d else s)"

definition modify :: "nat \<Rightarrow> (Conversation \<Rightarrow> Conversation) \<Rightarrow> world \<Rightarrow> world" where
  "modify a f w = w\<lparr>heap := (heap w)(a := f (heap w a))\<rparr>"

definition createConversation ::
  "string \<Rightarrow> CreateConversationArgs \<Rightarrow> world \<Rightarrow> (error + nat) \<times> world" where
  "createConversation DEFAULT_MODEL args w =
     (let model = (case arg_model args of None \<Rightarrow> DEFAULT_MODEL
                   | Some m \<Rightarrow> or_else m DEFAULT_MODEL) in
      case Date_now w of (now, w1) \<Rightarrow>
      (let parameters =
             \<lparr>temperature = nullish (opt_chain (arg_parameters args) temperature) (7 / 10),
              max_tokens = nullish (opt_chain (arg_parameters args) max_tokens) 1000,
              top_p = nullish (opt_chain (arg_parameters args) top_p) 1,
              frequency_penalty =
                nullish (opt_chain (arg_parameters args) frequency_penalty) 0,
              presence_penalty =
                nullish (opt_chain (arg_parameters args) presence_penalty) 0\<rparr>;
           messages = (case arg_system_prompt args of
                None \<Rightarrow> []
              | Some p \<Rightarrow> if p \<noteq> [] then [\<lparr>role = System, content = p\<rparr>] else [])
       in case getNextConversationId w1 of
            (Inl e, w2) \<Rightarrow>
              (Inl (ConversationCreateError
                 (''Failed to create conversation: '' @ error_message e)), w2)
          | (Inr i, w2) \<Rightarrow>
              (let conversation =
                     \<lparr>conv_id = i, model = model, created_at = now, updated_at = now,
                      metadata = arg_metadata args, parameters = parameters,
                      messages = messages\<rparr>;
                   a = allocated w2;
                   w3 = w2\<lparr>heap := (heap w2)(a := conversation), allocated := a + 1,
                           conversations := (conversations w2)(i \<mapsto> a)\<rparr>
               in case writeConversation conversation w3 of
                    (Inl e, w4) \<Rightarrow>
                      (Inl (ConversationCreateError
                         (''Failed to create conversation: '' @ error_message e)), w4)
                  | (Inr u, w4) \<Rightarrow> (Inr a, w4))))"

definition getConversation :: "string \<Rightarrow> world \<Rightarrow> (error + nat) \<times> world" where
  "getConversation conversationId w = (case conversations w conversationId of
     Some a \<Rightarrow> (Inr a, w)
   | None \<Rightarrow> (case readConversation conversationId w of
        (Inr conversation, w1) \<Rightarrow>
          (let a = allocated w1 in
           (Inr a, w1\<lparr>heap := (heap w1)(a := conversation), allocated := a + 1,
                       conversations := (conversations w1)(conversationId \<mapsto> a)\<rparr>))
      | (Inl e, w1) \<Rightarrow> (Inl (ConversationNotFoundError conversationId), w1)))"

definition updateConversation :: "nat \<Rightarrow> world \<Rightarrow> (error + unit) \<times> world" where
  "updateConversation conversation w = (case Date_now w of (now, w1) \<Rightarrow>
     (let w2 = modify conversation (\<lambda>c. c\<lparr>updated_at := now\<rparr>) w1;
          w3 = w2\<lparr>conversations :=
                    (conversations w2)(conv_id (heap w2 conversation) \<mapsto> conversation)\<rparr>
      in case writeConversation (heap w3 conversation) w3 of
           (Inl e, w4) \<Rightarrow>
             (Inl (ConversationStorageError
                (''Failed to update conversation: '' @ error_message e)), w4)
         | (Inr u, w4) \<Rightarrow> (Inr (), w4)))"

definition addMessage :: "string \<Rightarrow> role \<Rightarrow> string \<Rightarrow> world \<Rightarrow> (error + nat) \<times> world" where
  "addMessage conversationId r c w = (case getConversation conversationId w of
     (Inl e, w1) \<Rightarrow> (Inl e, w1)
   | (Inr conversation, w1) \<Rightarrow>
       (let w2 = modify conversation
                   (\<lambda>x. x\<lparr>messages := messages x @ [\<lparr>role = r, content = c\<rparr>]\<rparr>) w1
        in case updateConversation conversation w2 of
             (Inl e, w3) \<Rightarrow> (Inl e, w3)
           | (Inr u, w3) \<Rightarrow> (Inr conversation, w3)))"

definition ConversationManager_listConversations ::
  "(string \<Rightarrow> int option) \<Rightarrow> world \<Rightarrow> (error + ConversationMetadata list) \<times> world" where
  "ConversationManager_listConversations getTime w = (case listConversations getTime w of
     (Inl e, w1) \<Rightarrow>
       (Inl (ConversationStorageError
          (''Failed to list conversations: '' @ error_message e)), w1)
   | (Inr l, w1) \<Rightarrow> (Inr l, w1))"

definition ConversationManager_deleteConversation :: "string \<Rightarrow> world \<Rightarrow> bool \<times> world" where
  "ConversationManager_deleteConversation conversationId w =
     (let w1 = w\<lparr>conversations := (conversations w)(conversationId := None)\<rparr> in
      case deleteConversation conversationId w1 of
        (Inr u, w2) \<Rightarrow> (True, w2)
      | (Inl e, w2) \<Rightarrow> (False, w2))"

section \<open>Tools (src/tools)\<close>

text \<open>\<open>handleToolError\<close> never returns: the value here is the error it throws.\<close>

definition handleToolError :: "string \<Rightarrow> error \<Rightarrow> string \<Rightarrow> error" where
  "handleToolError context err customMessage =
     (let errorMessage = error_message err in
      case err of
        ConversationNotFoundError i \<Rightarrow> err
      | ChatTimeoutError m \<Rightarrow> err
      | _ \<Rightarrow>
        if error_name err = ''AbortError'' then ChatTimeoutError ''OpenAI API request timed out''
        else Error ''Error''
          (or_else customMessage ''Error in'' @ '' '' @ context @ '': '' @ errorMessage))"

subsection \<open>Argument schemas\<close>

text \<open>
  The server validates the arguments of a call against the tool's zod schema and hands
  the parsed value to \<open>execute\<close>; a call that does not validate is refused before
  \<open>execute\<close> runs. For a field declared \<open>.optional().default(d)\<close> the parsed value is the
  input when there is one and \<open>d\<close> otherwise, and the checks of the field apply to it.
\<close>

definition no_sampling :: "rat option sampling" where
  "no_sampling = \<lparr>temperature = None, max_tokens = None, top_p = None,
     frequency_penalty = None, presence_penalty = None\<rparr>"

definition sampling_checks :: "rat sampling \<Rightarrow> bool" where
  "sampling_checks p \<longleftrightarrow>
     0 \<le> temperature p \<and> temperature p \<le> 2 \<and>
     of_int \<lfloor>max_tokens p\<rfloor> = max_tokens p \<and> 0 < max_tokens p \<and>
     0 \<le> top_p p \<and> top_p p \<le> 1 \<and>
     - 2 \<le> frequency_penalty p \<and> frequency_penalty p \<le> 2 \<and>
     - 2 \<le> presence_penalty p \<and> presence_penalty p \<le> 2"

definition invalid_parameters :: "string \<Rightarrow> error" where
  "invalid_parameters tool = Error ''McpError'' (''Invalid '' @ tool @ '' parameters'')"

text \<open>The object of five fields, each \<open>.optional().default(d)\<close>, itself
  \<open>.optional().default({})\<close>.\<close>

definition sampling_schema ::
  "rat sampling \<Rightarrow> rat option sampling option \<Rightarrow> rat option sampling option" where
  "sampling_schema d input =
     (let p = (case input of None \<Rightarrow> no_sampling | Some p \<Rightarrow> p);
          q = \<lparr>temperature = nullish (temperature p) (temperature d),
               max_tokens = nullish (max_tokens p) (max_tokens d),
               top_p = nullish (top_p p) (top_p d),
               frequency_penalty = nullish (frequency_penalty p) (frequency_penalty d),
               presence_penalty = nullish (presence_penalty p) (presence_penalty d)\<rparr>
      in if sampling_checks q
         then Some \<lparr>temperature = Some (temperature q), max_tokens = Some (max_tokens q),
                top_p = Some (top_p q), frequency_penalty = Some (frequency_penalty q),
                presence_penalty = Some (presence_penalty q)\<rparr>
         else None)"

text \<open>The values of src/constants.ts that come from the process environment.\<close>

record config =
  DEFAULT_MODEL :: string
  defaultModel :: string
  DEFAULT_SYSTEM_PROMPT :: string
  DEFAULT_SAMPLING :: "rat sampling"

subsection \<open>create_conversation\<close>

record create_conversation_input =
  in_model :: "string option"
  in_system_prompt :: "string option"
  in_parameters :: "rat option sampling option"
  in_metadata :: "meta option"

definition createConversationSchema ::
  "config \<Rightarrow> create_conversation_input \<Rightarrow> error + CreateConversationArgs" where
  "createConversationSchema cfg input =
     (case sampling_schema
        \<lparr>temperature = 7 / 10, max_tokens = 1000, top_p = 1, frequency_penalty = 0,
         presence_penalty = 0\<rparr> (in_parameters input) of
        None \<Rightarrow> Inl (invalid_parameters ''create_conversation'')
      | Some p \<Rightarrow> Inr
          \<lparr>arg_model = in_model input,
           arg_system_prompt = Some (nullish (in_system_prompt input) (DEFAULT_SYSTEM_PROMPT cfg)),
           arg_parameters = Some p,
           arg_metadata = Some (nullish (in_metadata input)
             \<lparr>title = None, tags = None, extra = []\<rparr>)\<rparr>)"

definition create_conversation_execute ::
  "config \<Rightarrow> CreateConversationArgs \<Rightarrow> world \<Rightarrow> (error + string) \<times> world" where
  "create_conversation_execute cfg args w =
     (case createConversation (DEFAULT_MODEL cfg)
        (args\<lparr>arg_model := Some (case arg_model args of None \<Rightarrow> defaultModel cfg
                                 | Some m \<Rightarrow> or_else m (defaultModel cfg))\<rparr>) w of
        (Inr conversation, w1) \<Rightarrow>
          (Inr (''Conversation created: '' @ conv_id (heap w1 conversation)), w1)
      | (Inl e, w1) \<Rightarrow>
          (Inl (handleToolError ''CreateConversation'' e ''Failed to create conversation''), w1))"

definition create_conversation ::
  "config \<Rightarrow> create_conversation_input \<Rightarrow> world \<Rightarrow> (error + string) \<times> world" where
  "create_conversation cfg input w = (case createConversationSchema cfg input of
     Inl e \<Rightarrow> (Inl e, w)
   | Inr args \<Rightarrow> create_conversation_execute cfg args w)"

subsection \<open>chat\<close>

record chat_input =
  in_conversation_id :: string
  in_message :: string
  in_chat_parameters :: "rat option sampling option"

record ChatArgs =
  arg_conversation_id :: string
  arg_message :: string
  arg_chat_parameters :: "rat option sampling"

definition chatSchema :: "config \<Rightarrow> chat_input \<Rightarrow> error + ChatArgs" where
  "chatSchema cfg input =
     (case sampling_schema (DEFAULT_SAMPLING cfg) (in_chat_parameters input) of
        None \<Rightarrow> Inl (invalid_parameters ''chat'')
      | Some p \<Rightarrow> Inr \<lparr>arg_conversation_id = in_conversation_id input,
          arg_message = in_message input, arg_chat_parameters = p\<rparr>)"

text \<open>
  The completion API: a request is refused with an error, or answered by a stream, which
  delivers chunks (each with a content fragment or none) and then ends or breaks off with
  an error (a failure, a timeout, an abort). Retries happen inside the client library.
\<close>

record stream =
  chunks :: "string option list"
  failure :: "error option"

text \<open>The body of the \<open>for await\<close> loop, on \<open>assistantMessage\<close> and \<open>progressCounter\<close>.\<close>

definition process_chunk :: "string option \<Rightarrow> string \<times> nat \<times> world \<Rightarrow> string \<times> nat \<times> world" where
  "process_chunk chunk s = (case s of (assistantMessage, progressCounter, w) \<Rightarrow>
     (let content = (case chunk of None \<Rightarrow> [] | Some c \<Rightarrow> c);
          assistantMessage = assistantMessage @ content
      in if progressCounter < 80 then
           (let progressCounter = progressCounter + 1 in
            if progressCounter < 40 \<or> progressCounter mod 5 = 0
            then (assistantMessage, progressCounter, reportProgress progressCounter w)
            else (assistantMessage, progressCounter, w))
         else (assistantMessage, progressCounter, w)))"

definition chat_failed :: "error \<Rightarrow> world \<Rightarrow> (error + string) \<times> world" where
  "chat_failed e w = (Inl (handleToolError ''Chat'' e ''Failed to process chat request''), w)"

text \<open>The sampling values of the turn, and the request sent for a conversation object.\<close>

definition chatParams :: "ChatArgs \<Rightarrow> Conversation \<Rightarrow> rat sampling" where
  "chatParams args conversation =
     \<lparr>temperature = nullish (temperature (arg_chat_parameters args))
        (temperature (parameters conversation)),
      max_tokens = nullish (max_tokens (arg_chat_parameters args))
        (max_tokens (parameters conversation)),
      top_p = nullish (top_p (arg_chat_parameters args)) (top_p (parameters conversation)),
      frequency_penalty = nullish (frequency_penalty (arg_chat_parameters args))
        (frequency_penalty (parameters conversation)),
      presence_penalty = nullish (presence_penalty (arg_chat_parameters args))
        (presence_penalty (parameters conversation))\<rparr>"

definition chat_request :: "ChatArgs \<Rightarrow> Conversation \<Rightarrow> request" where
  "chat_request args conversation =
     \<lparr>req_model = model conversation, req_messages = messages conversation,
      req_sampling = chatParams args conversation\<rparr>"

definition chat_execute ::
  "(request \<Rightarrow> error + stream) \<Rightarrow> ChatArgs \<Rightarrow> world \<Rightarrow> (error + string) \<times> world" where
  "chat_execute openai args w =
     (let w0 = reportProgress 0 w in
      case getConversation (arg_conversation_id args) w0 of
        (Inl e, w1) \<Rightarrow> chat_failed e w1
      | (Inr conversation, w1) \<Rightarrow>
      (case addMessage (conv_id (heap w1 conversation)) User (arg_message args) w1 of
        (Inl e, w2) \<Rightarrow> chat_failed e w2
      | (Inr u, w2) \<Rightarrow>
      (let req = chat_request args (heap w2 conversation);
           w3 = emit (Requested req) w2
       in case openai req of
            Inl e \<Rightarrow> chat_failed e w3
          | Inr stream \<Rightarrow>
          (case fold process_chunk (chunks stream) ([], 30, w3) of
            (assistantMessage, progressCounter, w4) \<Rightarrow>
            (case failure stream of
               Some e \<Rightarrow> chat_failed e w4
             | None \<Rightarrow>
             (let w5 = reportProgress 80 w4 in
              case addMessage (conv_id (heap w5 conversation)) Assistant assistantMessage w5 of
                (Inl e, w6) \<Rightarrow> chat_failed e w6
              | (Inr u, w6) \<Rightarrow> (Inr assistantMessage, reportProgress 100 w6)))))))"

definition chat ::
  "config \<Rightarrow> (request \<Rightarrow> error + stream) \<Rightarrow> chat_input \<Rightarrow> world \<Rightarrow> (error + string) \<times> world" where
  "chat cfg openai input w = (case chatSchema cfg input of
     Inl e \<Rightarrow> (Inl e, w)
   | Inr args \<Rightarrow> chat_execute openai args w)"

subsection \<open>list_conversations, get_conversation, delete_conversation\<close>

record list_filter =
  filter_tags :: "string list option"
  created_after :: "string option"
  created_before :: "string option"

record ListConversationsArgs =
  arg_filter :: "list_filter option"
  limit :: "nat option"
  offset :: "nat option"

text \<open>\<open>a >= b\<close> and \<open>a <= b\<close> on the results of \<open>getTime()\<close>: false when either is NaN.\<close>

definition time_ge :: "int option \<Rightarrow> int option \<Rightarrow> bool" where
  "time_ge a b = (case (a, b) of (Some x, Some y) \<Rightarrow> x \<ge> y | _ \<Rightarrow> False)"

definition time_le :: "int option \<Rightarrow> int option \<Rightarrow> bool" where
  "time_le a b = (case (a, b) of (Some x, Some y) \<Rightarrow> x \<le> y | _ \<Rightarrow> False)"

definition has_some_tag :: "string list \<Rightarrow> ConversationMetadata \<Rightarrow> bool" where
  "has_some_tag ts conv = (case opt_chain (metadata conv) tags of
     None \<Rightarrow> False
   | Some cts \<Rightarrow> list_ex (\<lambda>tag. tag \<in> set ts) cts)"

definition apply_filter ::
  "(string \<Rightarrow> int option) \<Rightarrow> list_filter \<Rightarrow> ConversationMetadata list \<Rightarrow> ConversationMetadata list"
  where
  "apply_filter getTime f convs =
     (let convs = (case filter_tags f of
              None \<Rightarrow> convs
            | Some ts \<Rightarrow> filter (has_some_tag ts) convs);
          convs = (case created_after f of
              None \<Rightarrow> convs
            | Some s \<Rightarrow> if s = [] then convs
                else (let afterDate = getTime s in
                      filter (\<lambda>conv. time_ge (getTime (created_at conv)) afterDate) convs));
          convs = (case created_before f of
              None \<Rightarrow> convs
            | Some s \<Rightarrow> if s = [] then convs
                else (let beforeDate = getTime s in
                      filter (\<lambda>conv. time_le (getTime (created_at conv)) beforeDate) convs))
      in convs)"

definition list_conversations_execute ::
  "(string \<Rightarrow> int option) \<Rightarrow> ListConversationsArgs \<Rightarrow> world \<Rightarrow>
     (error + ConversationMetadata list) \<times> world" where
  "list_conversations_execute getTime args w =
     (case ConversationManager_listConversations getTime w of
        (Inl e, w1) \<Rightarrow>
          (Inl (handleToolError ''ListConversations'' e ''Failed to list conversations''), w1)
      | (Inr convs, w1) \<Rightarrow>
          (let convs = (case arg_filter args of
                   None \<Rightarrow> convs
                 | Some f \<Rightarrow> apply_filter getTime f convs);
               offsetValue = nullish (offset args) 0;
               limitValue = nullish (limit args) (length convs)
           in (Inr (take limitValue (drop offsetValue convs)), w1)))"

definition list_conversations ::
  "(string \<Rightarrow> int option) \<Rightarrow> ListConversationsArgs \<Rightarrow> world \<Rightarrow>
     (error + ConversationMetadata list) \<times> world" where
  "list_conversations getTime args w =
     (if limit args = Some 0 then (Inl (invalid_parameters ''list_conversations''), w)
      else list_conversations_execute getTime args w)"

definition get_conversation :: "string \<Rightarrow> world \<Rightarrow> (error + Conversation) \<times> world" where
  "get_conversation conversation_id w = (case getConversation conversation_id w of
     (Inr conversation, w1) \<Rightarrow> (Inr (heap w1 conversation), w1)
   | (Inl e, w1) \<Rightarrow>
       (Inl (handleToolError ''GetConversation'' e ''Failed to get conversation''), w1))"

definition delete_conversation :: "string \<Rightarrow> world \<Rightarrow> (error + string) \<times> world" where
  "delete_conversation conversation_id w =
     (case ConversationManager_deleteConversation conversation_id w of
        (success, w1) \<Rightarrow> (Inr ''Conversation deleted'', w1))"

section \<open>Notions used in the statements\<close>

fun progress_ev :: "event \<Rightarrow> nat list" where
  "progress_ev (Progress p) = [p]"
| "progress_ev e = []"

fun write_ev :: "event \<Rightarrow> (string \<times> Conversation) list" where
  "write_ev (Wrote f c) = [(f, c)]"
| "write_ev e = []"

fun request_ev :: "event \<Rightarrow> request list" where
  "request_ev (Requested r) = [r]"
| "request_ev e = []"

definition progress_of :: "event list \<Rightarrow> nat list" where
  "progress_of ev = concat (map progress_ev ev)"

definition writes_of :: "event list \<Rightarrow> (string \<times> Conversation) list" where
  "writes_of ev = concat (map write_ev ev)"

definition requests_of :: "event list \<Rightarrow> request list" where
  "requests_of ev = concat (map request_ev ev)"

text \<open>The text of a stream's fragments, and the values the progress counter reports on
  its way from 30 towards 80 over \<open>n\<close> chunks.\<close>

definition fragments :: "string option list \<Rightarrow> string" where
  "fragments cs = concat (map (\<lambda>chunk. case chunk of None \<Rightarrow> [] | Some c \<Rightarrow> c) cs)"

definition ticks_from :: "nat \<Rightarrow> nat \<Rightarrow> nat list" where
  "ticks_from k n = filter (\<lambda>p. p < 40 \<or> p mod 5 = 0) [Suc k ..< Suc (min (k + n) 80)]"

definition ticks :: "nat \<Rightarrow> nat list" where
  "ticks n = ticks_from 30 n"

text \<open>The turn up to and including the append of the user message.\<close>

definition user_append :: "ChatArgs \<Rightarrow> world \<Rightarrow> (error + nat) \<times> world" where
  "user_append args w =
     (case getConversation (arg_conversation_id args) (reportProgress 0 w) of
        (Inl e, w1) \<Rightarrow> (Inl e, w1)
      | (Inr conversation, w1) \<Rightarrow>
          addMessage (conv_id (heap w1 conversation)) User (arg_message args) w1)"

text \<open>Every address in the manager's Map is that of an object already made.\<close>

definition cache_ok :: "world \<Rightarrow> bool" where
  "cache_ok w \<longleftrightarrow> (\<forall>k a. conversations w k = Some a \<longrightarrow> a < allocated w)"





text \<open>No system message after the first position.\<close>

definition system_first :: "message list \<Rightarrow> bool" where
  "system_first ms \<longleftrightarrow> list_all (\<lambda>m. role m \<noteq> System) (tl ms)"


text \<open>The states that the tools lead to, from a process that has just started on a
  directory whose files are in order.\<close>

inductive reachable :: "config \<Rightarrow> (string \<Rightarrow> int option) \<Rightarrow> world \<Rightarrow> bool"
  for cfg :: config and getTime :: "string \<Rightarrow> int option" where
  start: "allocated w = 0 \<Longrightarrow> conversations w = Map.empty \<Longrightarrow>
      \<forall>f c. (f, Json c) \<in> set (dir w) \<longrightarrow> system_first (messages c) \<Longrightarrow> reachable cfg getTime w"
| create: "reachable cfg getTime w \<Longrightarrow>
      reachable cfg getTime (snd (create_conversation cfg input w))"
| chat: "reachable cfg getTime w \<Longrightarrow> reachable cfg getTime (snd (chat cfg openai turn w))"
| get: "reachable cfg getTime w \<Longrightarrow> reachable cfg getTime (snd (get_conversation i w))"
| list: "reachable cfg getTime w \<Longrightarrow>
      reachable cfg getTime (snd (list_conversations getTime largs w))"
| delete: "reachable cfg getTime w \<Longrightarrow> reachable cfg getTime (snd (delete_conversation i w))"

text \<open>From one state to a later one, the conversations in memory keep their messages
  and get none but user and assistant messages, at the end.\<close>

definition appended :: "world \<Rightarrow> world \<Rightarrow> bool" where
  "appended w w1 \<longleftrightarrow>
     allocated w \<le> allocated w1 \<and>
     (\<forall>b < allocated w. \<exists>ms. messages (heap w1 b) = messages (heap w b) @ ms \<and>
        list_all (\<lambda>m. role m \<noteq> System) ms)"

section \<open>Sample values\<close>

definition sampling0 :: "rat sampling" where
  "sampling0 = \<lparr>temperature = 1/5, max_tokens = 1000, top_p = 1, frequency_penalty = 0,
     presence_penalty = 0\<rparr>"

definition conversation0 :: Conversation where
  "conversation0 = \<lparr>conv_id = ''1'', model = ''m'', created_at = ''2024-01-01T00:00:00.000Z'',
     updated_at = ''2024-01-01T00:00:00.000Z'', metadata = None, parameters = sampling0,
     messages = [\<lparr>role = System, content = ''S''\<rparr>]\<rparr>"

definition world0 :: world where
  "world0 = \<lparr>heap = (\<lambda>a. conversation0), allocated = 0, conversations = Map.empty, dir = [], io_errors = (\<lambda>k. None),
     io_calls = 0, clock = (\<lambda>k. ''2024-01-02T00:00:00.000Z''), clock_reads = 0, trace = []\<rparr>"

definition world1 :: world where
  "world1 = world0\<lparr>dir := [(''1.json'', Json conversation0)]\<rparr>"


definition cfg0 :: config where
  "cfg0 = \<lparr>DEFAULT_MODEL = ''gpt-4o-mini'', defaultModel = ''gpt-4o-mini'',
     DEFAULT_SYSTEM_PROMPT = ''You are a helpful assistant.'',
     DEFAULT_SAMPLING = \<lparr>temperature = 7 / 10, max_tokens = 50000, top_p = 1,
       frequency_penalty = 0, presence_penalty = 0\<rparr>\<rparr>"

text \<open>A completion API that answers every request with the fragments "He", "llo", and
  one whose stream breaks off after "He".\<close>

definition openai0 :: "request \<Rightarrow> error + stream" where
  "openai0 req = Inr \<lparr>chunks = [Some ''He'', Some ''llo''], failure = None\<rparr>"

definition openai1 :: "request \<Rightarrow> error + stream" where
  "openai1 req = Inr \<lparr>chunks = [Some ''He''],
     failure = Some (Error ''Error'' ''Request timed out.'')\<rparr>"

definition args0 :: ChatArgs where
  "args0 = \<lparr>arg_conversation_id = ''1'', arg_message = ''hi'',
     arg_chat_parameters = \<lparr>temperature = Some (7 / 10), max_tokens = Some 50000,
       top_p = Some 1, frequency_penalty = Some 0, presence_penalty = Some 0\<rparr>\<rparr>"

definition input0 :: chat_input where
  "input0 = \<lparr>in_conversation_id = ''1'', in_message = ''hi'', in_chat_parameters = None\<rparr>"

text \<open>Three conversations made on three successive days, and \<open>getTime\<close> on their
  timestamps (milliseconds since the epoch).\<close>

definition day1 :: string where "day1 = ''2024-01-01T00:00:00.000Z''"
definition day2 :: string where "day2 = ''2024-01-02T00:00:00.000Z''"
definition day3 :: string where "day3 = ''2024-01-03T00:00:00.000Z''"

definition getTime0 :: "string \<Rightarrow> int option" where
  "getTime0 s = (if s = day1 then Some 1704067200000
     else if s = day2 then Some 1704153600000
     else if s = day3 then Some 1704240000000
     else None)"

definition conversation_of_day :: "string \<Rightarrow> string \<Rightarrow> Conversation" where
  "conversation_of_day i d = \<lparr>conv_id = i, model = ''m'', created_at = d, updated_at = d,
     metadata = None, parameters = sampling0, messages = []\<rparr>"

definition metadata_of_day :: "string \<Rightarrow> string \<Rightarrow> ConversationMetadata" where
  "metadata_of_day i d = \<lparr>conv_id = i, model = ''m'', created_at = d, updated_at = d,
     metadata = None, message_count = 0\<rparr>"

definition world3 :: world where
  "world3 = world0\<lparr>dir := [(''1.json'', Json (conversation_of_day ''1'' day1)),
     (''2.json'', Json (conversation_of_day ''2'' day2)),
     (''3.json'', Json (conversation_of_day ''3'' day3))]\<rparr>"

definition between_days :: ListConversationsArgs where
  "between_days = \<lparr>arg_filter = Some \<lparr>filter_tags = None, created_after = Some day1,
     created_before = Some day3\<rparr>, limit = None, offset = None\<rparr>"





section \<open>Storage: reading, writing, deleting\<close>

lemma readConversation_result:
  "fst (readConversation conversationId w) =
     (case io_errors w (io_calls w) of
        Some m \<Rightarrow> Inl (ConversationStorageError (''Failed to read conversation: '' @ m))
      | None \<Rightarrow> (case map_of (dir w) (getConversationFilePath conversationId) of
          None \<Rightarrow> Inl (ConversationStorageError (''Failed to read conversation: '' @
            ''ENOENT: no such file or directory, open '' @ getConversationFilePath conversationId))
        | Some (NotJson m) \<Rightarrow>
            Inl (ConversationStorageError (''Failed to read conversation: '' @ m))
        | Some (Json c) \<Rightarrow> Inr c))"
  by (simp add: readConversation_def readFile_def fs_call_def Let_def
      split: option.splits file_text.splits)

lemma readConversation_world:
  "snd (readConversation conversationId w) = w\<lparr>io_calls := io_calls w + 1\<rparr>"
  by (simp add: readConversation_def readFile_def fs_call_def Let_def
      split: option.splits file_text.splits sum.splits)

text \<open>
  C10. The delete_conversation tool answers "Conversation deleted" for every id and every
  state; the manager's boolean, which is true only when the file existed and the
  operating system removed it, does not reach the caller.
\<close>

theorem delete_conversation_always_confirms:
  "fst (delete_conversation conversation_id w) = Inr ''Conversation deleted'' \<and>
   snd (delete_conversation conversation_id w) =
     snd (ConversationManager_deleteConversation conversation_id w) \<and>
   fst (ConversationManager_deleteConversation conversation_id w) =
     (io_errors w (io_calls w) = None \<and>
      map_of (dir w) (getConversationFilePath conversation_id) \<noteq> None)"
  by (auto simp: delete_conversation_def ConversationManager_deleteConversation_def
      deleteConversation_def unlink_def fs_call_def Let_def split: option.splits prod.splits)

theorem delete_conversation_always_confirms_witness:
  "fst (delete_conversation ''7'' world0) = Inr ''Conversation deleted'' \<and>
   fst (ConversationManager_deleteConversation ''7'' world0) = False"
  using delete_conversation_always_confirms [of "''7''" world0]
  by (simp add: world0_def getConversationFilePath_def)



text \<open>
  C5, as the claim states it for the store: reading an id that has no file would fail
  with the NotFound kind. The store fails with its storage error instead.
\<close>

theorem readConversation_absent_is_storage_error:
  "fst (readConversation ''1'' world0) =
     Inl (ConversationStorageError
       ''Failed to read conversation: ENOENT: no such file or directory, open 1.json'')"
  by (simp add: readConversation_result world0_def getConversationFilePath_def)

text \<open>
  C5, amended. The store-level read fails exactly when the operating system refuses the
  read, the file of that id is absent, or its text is not JSON, and it always fails with
  the storage error kind. The manager-level get returns the cached conversation when there
  is one, leaving the state as it is; otherwise it reads through the store, makes the
  record a new object, puts it into the cache under the requested id and returns it; it fails exactly when the
  id is not cached and the store-level read fails, and then with the not-found error that
  carries the requested id.
\<close>

theorem read_and_get_failures:
  "(isl (fst (readConversation conversationId w)) \<longleftrightarrow>
      io_errors w (io_calls w) \<noteq> None \<or>
      map_of (dir w) (getConversationFilePath conversationId) = None \<or>
      (\<exists>m. map_of (dir w) (getConversationFilePath conversationId) = Some (NotJson m))) \<and>
   (isl (fst (readConversation conversationId w)) \<longrightarrow>
      (\<exists>m. fst (readConversation conversationId w) = Inl (ConversationStorageError m))) \<and>
   (\<forall>a. conversations w conversationId = Some a \<longrightarrow>
      getConversation conversationId w = (Inr a, w)) \<and>
   (\<forall>c. conversations w conversationId = None \<and>
        fst (readConversation conversationId w) = Inr c \<longrightarrow>
      fst (getConversation conversationId w) = Inr (allocated w) \<and>
      heap (snd (getConversation conversationId w)) = (heap w)(allocated w := c) \<and>
      allocated (snd (getConversation conversationId w)) = allocated w + 1 \<and>
      conversations (snd (getConversation conversationId w)) =
        (conversations w)(conversationId \<mapsto> allocated w) \<and>
      dir (snd (getConversation conversationId w)) = dir w) \<and>
   (isl (fst (getConversation conversationId w)) \<longleftrightarrow>
      conversations w conversationId = None \<and>
      isl (fst (readConversation conversationId w))) \<and>
   (isl (fst (getConversation conversationId w)) \<longrightarrow>
      fst (getConversation conversationId w) = Inl (ConversationNotFoundError conversationId))"
proof (intro conjI allI impI)
  show "isl (fst (readConversation conversationId w)) \<longleftrightarrow>
      io_errors w (io_calls w) \<noteq> None \<or>
      map_of (dir w) (getConversationFilePath conversationId) = None \<or>
      (\<exists>m. map_of (dir w) (getConversationFilePath conversationId) = Some (NotJson m))"
    by (auto simp: readConversation_result split: option.splits file_text.splits)
  show "\<exists>m. fst (readConversation conversationId w) = Inl (ConversationStorageError m)"
    if "isl (fst (readConversation conversationId w))"
    using that by (auto simp: readConversation_result split: option.splits file_text.splits)
  show "getConversation conversationId w = (Inr a, w)"
    if "conversations w conversationId = Some a" for a
    using that by (simp add: getConversation_def)
  show "isl (fst (getConversation conversationId w)) \<longleftrightarrow>
      conversations w conversationId = None \<and>
      isl (fst (readConversation conversationId w))"
    by (auto simp: getConversation_def Let_def split: option.splits prod.splits sum.splits)
  show "fst (getConversation conversationId w) = Inl (ConversationNotFoundError conversationId)"
    if "isl (fst (getConversation conversationId w))"
    using that
    by (auto simp: getConversation_def Let_def split: option.splits prod.splits sum.splits)
next
  fix c
  assume h: "conversations w conversationId = None \<and>
    fst (readConversation conversationId w) = Inr c"
  obtain r w1 where rw: "readConversation conversationId w = (r, w1)"
    by (cases "readConversation conversationId w")
  with h have r: "r = Inr c" by simp
  from rw have w1: "w1 = w\<lparr>io_calls := io_calls w + 1\<rparr>"
    using readConversation_world [of conversationId w] by simp
  have g: "getConversation conversationId w =
      (Inr (allocated w1), w1\<lparr>heap := (heap w1)(allocated w1 := c),
         allocated := allocated w1 + 1,
         conversations := (conversations w1)(conversationId \<mapsto> allocated w1)\<rparr>)"
    using h rw r by (simp add: getConversation_def Let_def)
  show "fst (getConversation conversationId w) = Inr (allocated w)"
    by (simp add: g w1)
  show "heap (snd (getConversation conversationId w)) = (heap w)(allocated w := c)"
    by (simp add: g w1)
  show "allocated (snd (getConversation conversationId w)) = allocated w + 1"
    by (simp add: g w1)
  show "conversations (snd (getConversation conversationId w)) =
        (conversations w)(conversationId \<mapsto> allocated w)"
    by (simp add: g w1)
  show "dir (snd (getConversation conversationId w)) = dir w"
    by (simp add: g w1)
qed

theorem read_and_get_failures_witness:
  "fst (getConversation ''1'' world1) = Inr 0 \<and>
   heap (snd (getConversation ''1'' world1)) 0 = conversation0 \<and>
   fst (getConversation ''2'' world1) = Inl (ConversationNotFoundError ''2'')"
proof -
  have r: "fst (readConversation ''1'' world1) = Inr conversation0"
    by (simp add: readConversation_result world1_def world0_def getConversationFilePath_def)
  have n: "isl (fst (readConversation ''2'' world1))"
    by (simp add: readConversation_result world1_def world0_def getConversationFilePath_def)
  have c: "conversations world1 ''1'' = None" "conversations world1 ''2'' = None"
    "allocated world1 = 0"
    by (simp_all add: world1_def world0_def)
  show ?thesis
    using read_and_get_failures [of "''1''" world1] read_and_get_failures [of "''2''" world1]
      r n c by simp
qed

section \<open>A chat turn, step by step\<close>

lemma getConversation_trace: "trace (snd (getConversation k w)) = trace w"
  by (simp add: getConversation_def readConversation_def readFile_def fs_call_def Let_def
      split: option.splits prod.splits sum.splits file_text.splits)

lemma getConversation_cached:
  "getConversation k w = (Inr a, w1) \<Longrightarrow> conversations w1 k = Some a"
  by (auto simp: getConversation_def readConversation_def readFile_def fs_call_def Let_def
      split: option.splits prod.splits sum.splits file_text.splits)

lemma writeConversation_Inr:
  "writeConversation c w = (Inr u, w') \<Longrightarrow>
     w' = w\<lparr>io_calls := io_calls w + 2,
            dir := AList.update (getConversationFilePath (conv_id c)) (Json c) (dir w),
            trace := trace w @ [Wrote (getConversationFilePath (conv_id c)) c]\<rparr>"
  by (auto simp: writeConversation_def ensureConversationDir_def mkdir_def writeFile_def
      fs_call_def emit_def Let_def split: option.splits)

lemma writeConversation_Inl:
  "writeConversation c w = (Inl e, w') \<Longrightarrow>
     (\<exists>n. w' = w\<lparr>io_calls := n\<rparr>) \<and> (\<exists>m. e = ConversationStorageError m)"
  by (auto simp: writeConversation_def ensureConversationDir_def mkdir_def writeFile_def
      fs_call_def emit_def Let_def split: option.splits)

lemma process_chunk_step:
  "process_chunk c (m, k, w) =
     (m @ fragments [c], if k < 80 then Suc k else k,
      if k < 80 \<and> (Suc k < 40 \<or> Suc k mod 5 = 0)
      then w\<lparr>trace := trace w @ [Progress (Suc k)]\<rparr> else w)"
  by (simp add: process_chunk_def fragments_def reportProgress_def emit_def Let_def)

lemma fragments_Cons: "fragments (c # cs) = fragments [c] @ fragments cs"
  by (simp add: fragments_def)

lemma fold_process_chunk:
  "k \<le> 80 \<Longrightarrow> fold process_chunk cs (m, k, w) =
     (m @ fragments cs, min (k + length cs) 80,
      w\<lparr>trace := trace w @ map Progress (ticks_from k (length cs))\<rparr>)"
proof (induction cs arbitrary: m k w)
  case Nil
  then show ?case by (simp add: fragments_def ticks_from_def)
next
  case (Cons c cs)
  show ?case
  proof (cases "k < 80")
    case True
    then have "Suc k < Suc (min (k + length (c # cs)) 80)" by simp
    from upt_conv_Cons [OF this]
    have u: "ticks_from k (Suc (length cs)) =
        (if Suc k < 40 \<or> Suc k mod 5 = 0 then [Suc k] else []) @ ticks_from (Suc k) (length cs)"
      by (simp add: ticks_from_def)
    from True have "Suc k \<le> 80" by simp
    from Cons.IH [OF this] True show ?thesis
      by (simp add: process_chunk_step u fragments_Cons [of c cs])
  next
    case False
    with Cons.prems have k: "k = 80" by simp
    have u: "ticks_from 80 n = []" for n by (simp add: ticks_from_def)
    from Cons.IH [of 80] show ?thesis
      by (simp add: k process_chunk_step u fragments_Cons [of c cs])
  qed
qed


lemma updateConversation_Inr:
  assumes "updateConversation a w = (Inr u, w')"
  shows "heap w' = (heap w)(a := (heap w a)\<lparr>updated_at := clock w (clock_reads w)\<rparr>)"
    and "conversations w' = (conversations w)(conv_id (heap w a) \<mapsto> a)"
    and "trace w' = trace w @ [Wrote (getConversationFilePath (conv_id (heap w a))) (heap w' a)]"
    and "dir w' = AList.update (getConversationFilePath (conv_id (heap w a)))
           (Json (heap w' a)) (dir w)"
    and "allocated w' = allocated w"
  using assms
  by (auto simp: updateConversation_def Date_now_def modify_def Let_def
      dest!: writeConversation_Inr split: prod.splits sum.splits)

lemma updateConversation_Inl:
  assumes "updateConversation a w = (Inl e, w')"
  shows "heap w' = (heap w)(a := (heap w a)\<lparr>updated_at := clock w (clock_reads w)\<rparr>)"
    and "conversations w' = (conversations w)(conv_id (heap w a) \<mapsto> a)"
    and "trace w' = trace w" and "dir w' = dir w" and "allocated w' = allocated w"
  using assms
  by (auto simp: updateConversation_def Date_now_def modify_def Let_def
      dest!: writeConversation_Inl split: prod.splits sum.splits)


lemma getConversation_frame:
  "getConversation k w = (r, w1) \<Longrightarrow>
     trace w1 = trace w \<and> dir w1 = dir w \<and> clock w1 = clock w \<and>
     clock_reads w1 = clock_reads w"
  by (auto simp: getConversation_def readConversation_def readFile_def fs_call_def Let_def
      split: option.splits prod.splits sum.splits file_text.splits)

lemma addMessage_Inr:
  assumes "addMessage k r c w = (Inr a, w')"
  obtains wg where "getConversation k w = (Inr a, wg)"
    and "heap w' = (heap wg)(a := (heap wg a)\<lparr>messages := messages (heap wg a) @
            [\<lparr>role = r, content = c\<rparr>], updated_at := clock w (clock_reads w)\<rparr>)"
    and "conversations w' = (conversations wg)(conv_id (heap wg a) \<mapsto> a)"
    and "trace w' = trace w @ [Wrote (getConversationFilePath (conv_id (heap wg a))) (heap w' a)]"
    and "dir w' = AList.update (getConversationFilePath (conv_id (heap wg a)))
           (Json (heap w' a)) (dir w)"
    and "allocated w' = allocated wg"
proof -
  obtain wg where g: "getConversation k w = (Inr a, wg)"
    and u: "updateConversation a (modify a
       (\<lambda>x. x\<lparr>messages := messages x @ [\<lparr>role = r, content = c\<rparr>]\<rparr>) wg) = (Inr (), w')"
    using assms
    by (auto simp: addMessage_def Let_def split: prod.splits sum.splits)
  note f = getConversation_frame [OF g]
  show thesis
    using updateConversation_Inr [OF u] f
    by (intro that [OF g]) (simp_all add: modify_def)
qed

lemma addMessage_Inl:
  assumes "addMessage k r c w = (Inl e, w')"
  shows "trace w' = trace w" and "dir w' = dir w"
proof -
  obtain rg wg where g: "getConversation k w = (rg, wg)"
    by (cases "getConversation k w")
  note f = getConversation_frame [OF g]
  have "trace w' = trace w \<and> dir w' = dir w"
  proof (cases rg)
    case (Inl e')
    with g assms f show ?thesis by (simp add: addMessage_def)
  next
    case (Inr a)
    with g assms obtain e' where "updateConversation a (modify a
       (\<lambda>x. x\<lparr>messages := messages x @ [\<lparr>role = r, content = c\<rparr>]\<rparr>) wg) = (Inl e', w')"
      by (auto simp: addMessage_def Let_def split: prod.splits sum.splits)
    from updateConversation_Inl(3,4) [OF this] f show ?thesis
      by (simp add: modify_def)
  qed
  then show "trace w' = trace w" and "dir w' = dir w" by simp_all
qed

lemma chat_execute_cases [consumes 1, case_names no_conversation user_not_appended refused
    broke assistant_not_appended complete]:
  assumes "chat_execute openai args w = (res, w')"
  obtains e where
      "getConversation (arg_conversation_id args) (reportProgress 0 w) = (Inl e, w')"
      "res = Inl (handleToolError ''Chat'' e ''Failed to process chat request'')"
  | a w1 e where
      "getConversation (arg_conversation_id args) (reportProgress 0 w) = (Inr a, w1)"
      "addMessage (conv_id (heap w1 a)) User (arg_message args) w1 = (Inl e, w')"
      "res = Inl (handleToolError ''Chat'' e ''Failed to process chat request'')"
  | a w1 u w2 e where
      "getConversation (arg_conversation_id args) (reportProgress 0 w) = (Inr a, w1)"
      "addMessage (conv_id (heap w1 a)) User (arg_message args) w1 = (Inr u, w2)"
      "openai (chat_request args (heap w2 a)) = Inl e"
      "w' = emit (Requested (chat_request args (heap w2 a))) w2"
      "res = Inl (handleToolError ''Chat'' e ''Failed to process chat request'')"
  | a w1 u w2 st e where
      "getConversation (arg_conversation_id args) (reportProgress 0 w) = (Inr a, w1)"
      "addMessage (conv_id (heap w1 a)) User (arg_message args) w1 = (Inr u, w2)"
      "openai (chat_request args (heap w2 a)) = Inr st"
      "failure st = Some e"
      "w' = w2\<lparr>trace := trace w2 @ Requested (chat_request args (heap w2 a)) #
              map Progress (ticks (length (chunks st)))\<rparr>"
      "res = Inl (handleToolError ''Chat'' e ''Failed to process chat request'')"
  | a w1 u w2 st e where
      "getConversation (arg_conversation_id args) (reportProgress 0 w) = (Inr a, w1)"
      "addMessage (conv_id (heap w1 a)) User (arg_message args) w1 = (Inr u, w2)"
      "openai (chat_request args (heap w2 a)) = Inr st"
      "failure st = None"
      "addMessage (conv_id (heap w2 a)) Assistant (fragments (chunks st))
         (w2\<lparr>trace := trace w2 @ Requested (chat_request args (heap w2 a)) #
              map Progress (ticks (length (chunks st))) @ [Progress 80]\<rparr>) = (Inl e, w')"
      "res = Inl (handleToolError ''Chat'' e ''Failed to process chat request'')"
  | a w1 u w2 st u' w6 where
      "getConversation (arg_conversation_id args) (reportProgress 0 w) = (Inr a, w1)"
      "addMessage (conv_id (heap w1 a)) User (arg_message args) w1 = (Inr u, w2)"
      "openai (chat_request args (heap w2 a)) = Inr st"
      "failure st = None"
      "addMessage (conv_id (heap w2 a)) Assistant (fragments (chunks st))
         (w2\<lparr>trace := trace w2 @ Requested (chat_request args (heap w2 a)) #
              map Progress (ticks (length (chunks st))) @ [Progress 80]\<rparr>) = (Inr u', w6)"
      "w' = reportProgress 100 w6"
      "res = Inr (fragments (chunks st))"
proof -
  obtain r1 w1 where g: "getConversation (arg_conversation_id args) (reportProgress 0 w) = (r1, w1)"
    by (cases "getConversation (arg_conversation_id args) (reportProgress 0 w)")
  show thesis
  proof (cases r1)
    case (Inl e)
    with g assms that(1) show thesis
      by (simp add: chat_execute_def chat_failed_def)
  next
    case a: (Inr a)
    obtain r2 w2 where ad: "addMessage (conv_id (heap w1 a)) User (arg_message args) w1 = (r2, w2)"
      by (cases "addMessage (conv_id (heap w1 a)) User (arg_message args) w1")
    show thesis
    proof (cases r2)
      case (Inl e)
      with g a ad assms that(2) show thesis
        by (simp add: chat_execute_def chat_failed_def)
    next
      case u: (Inr u)
      let ?req = "chat_request args (heap w2 a)"
      show thesis
      proof (cases "openai ?req")
        case (Inl e)
        with g a ad u assms that(3) show thesis
          by (simp add: chat_execute_def chat_failed_def)
      next
        case st: (Inr st)
        have loop: "fold process_chunk (chunks st) ([], 30, emit (Requested ?req) w2) =
            (fragments (chunks st), min (30 + length (chunks st)) 80,
             w2\<lparr>trace := trace w2 @ Requested ?req # map Progress (ticks (length (chunks st)))\<rparr>)"
          by (simp add: fold_process_chunk emit_def ticks_def)
        show thesis
        proof (cases "failure st")
          case (Some e)
          with g a ad u st loop assms that(4) show thesis
            by (simp add: chat_execute_def chat_failed_def)
        next
          case None
          let ?w5 = "w2\<lparr>trace := trace w2 @ Requested ?req #
              map Progress (ticks (length (chunks st))) @ [Progress 80]\<rparr>"
          obtain r6 w6 where ad2: "addMessage (conv_id (heap w2 a)) Assistant
              (fragments (chunks st)) ?w5 = (r6, w6)"
            by (cases "addMessage (conv_id (heap w2 a)) Assistant (fragments (chunks st)) ?w5")
          show thesis
          proof (cases r6)
            case (Inl e)
            with g a ad u st loop None ad2 assms that(5) show thesis
              by (simp add: chat_execute_def chat_failed_def reportProgress_def emit_def)
          next
            case (Inr u')
            with g a ad u st loop None ad2 assms that(6) show thesis
              by (simp add: chat_execute_def chat_failed_def reportProgress_def emit_def)
          qed
        qed
      qed
    qed
  qed
qed


lemma getConversation_allocated:
  assumes "getConversation k w = (Inr a, w1)" and "cache_ok w"
  shows "a < allocated w1" and "cache_ok w1" and "allocated w \<le> allocated w1"
    and "\<And>b. b < allocated w \<Longrightarrow> heap w1 b = heap w b"
  using assms
  by (auto simp: getConversation_def readConversation_def readFile_def fs_call_def Let_def
      cache_ok_def less_Suc_eq
      split: option.splits prod.splits sum.splits file_text.splits if_splits)

lemma chat_execute_events [consumes 1, case_names not_appended refused broke
    assistant_not_appended complete]:
  assumes "chat_execute openai args w = (res, w')"
  obtains e where
      "user_append args w = (Inl e, w')"
      "res = Inl (handleToolError ''Chat'' e ''Failed to process chat request'')"
      "trace w' = trace w @ [Progress 0]" "dir w' = dir w"
  | a1 w2 f c1 req e where
      "user_append args w = (Inr a1, w2)"
      "trace w2 = trace w @ [Progress 0, Wrote f c1]"
      "last (messages c1) = \<lparr>role = User, content = arg_message args\<rparr>"
      "dir w2 = AList.update f (Json c1) (dir w)"
      "openai req = Inl e"
      "w' = emit (Requested req) w2"
      "res = Inl (handleToolError ''Chat'' e ''Failed to process chat request'')"
  | a1 w2 f c1 req st e where
      "user_append args w = (Inr a1, w2)"
      "trace w2 = trace w @ [Progress 0, Wrote f c1]"
      "last (messages c1) = \<lparr>role = User, content = arg_message args\<rparr>"
      "dir w2 = AList.update f (Json c1) (dir w)"
      "openai req = Inr st" "failure st = Some e"
      "w' = w2\<lparr>trace := trace w2 @ Requested req # map Progress (ticks (length (chunks st)))\<rparr>"
      "res = Inl (handleToolError ''Chat'' e ''Failed to process chat request'')"
  | a1 w2 f c1 req st e where
      "user_append args w = (Inr a1, w2)"
      "trace w2 = trace w @ [Progress 0, Wrote f c1]"
      "last (messages c1) = \<lparr>role = User, content = arg_message args\<rparr>"
      "dir w2 = AList.update f (Json c1) (dir w)"
      "openai req = Inr st" "failure st = None"
      "trace w' = trace w2 @ Requested req # map Progress (ticks (length (chunks st))) @
         [Progress 80]"
      "dir w' = dir w2"
      "res = Inl (handleToolError ''Chat'' e ''Failed to process chat request'')"
  | a1 w2 f c1 req st f2 c2 where
      "user_append args w = (Inr a1, w2)"
      "trace w2 = trace w @ [Progress 0, Wrote f c1]"
      "last (messages c1) = \<lparr>role = User, content = arg_message args\<rparr>"
      "dir w2 = AList.update f (Json c1) (dir w)"
      "openai req = Inr st" "failure st = None"
      "trace w' = trace w2 @ Requested req # map Progress (ticks (length (chunks st))) @
         [Progress 80, Wrote f2 c2, Progress 100]"
      "last (messages c2) = \<lparr>role = Assistant, content = fragments (chunks st)\<rparr>"
      "dir w' = AList.update f2 (Json c2) (dir w2)"
      "cache_ok w \<Longrightarrow> f2 = f \<and>
         messages c2 = messages c1 @ [\<lparr>role = Assistant, content = fragments (chunks st)\<rparr>]"
      "res = Inr (fragments (chunks st))"
  using assms
proof (cases rule: chat_execute_cases)
  case (no_conversation e)
  from getConversation_frame [OF no_conversation(1)] no_conversation that(1) [of e]
  show ?thesis
    by (simp add: user_append_def reportProgress_def emit_def)
next
  case (user_not_appended a w1 e)
  from getConversation_frame [OF user_not_appended(1)] addMessage_Inl [OF user_not_appended(2)]
    user_not_appended that(1) [of e]
  show ?thesis
    by (simp add: user_append_def reportProgress_def emit_def)
next
  case (refused a w1 u w2 e)
  note g = getConversation_frame [OF refused(1)]
  from refused(2) obtain wg where
    ad: "getConversation (conv_id (heap w1 a)) w1 = (Inr u, wg)"
      "heap w2 = (heap wg)(u := (heap wg u)\<lparr>messages := messages (heap wg u) @
            [\<lparr>role = User, content = arg_message args\<rparr>],
            updated_at := clock w1 (clock_reads w1)\<rparr>)"
      "trace w2 = trace w1 @ [Wrote (getConversationFilePath (conv_id (heap wg u))) (heap w2 u)]"
      "dir w2 = AList.update (getConversationFilePath (conv_id (heap wg u)))
           (Json (heap w2 u)) (dir w1)"
    by (rule addMessage_Inr)
  show ?thesis
  proof (rule that(2) [of u w2 "getConversationFilePath (conv_id (heap wg u))" "heap w2 u"
        "chat_request args (heap w2 a)" e])
    show "user_append args w = (Inr u, w2)"
      using refused by (simp add: user_append_def)
    show "trace w2 = trace w @ [Progress 0,
        Wrote (getConversationFilePath (conv_id (heap wg u))) (heap w2 u)]"
      using ad(3) g by (simp add: reportProgress_def emit_def)
    show "last (messages (heap w2 u)) = \<lparr>role = User, content = arg_message args\<rparr>"
      by (simp add: ad(2))
    show "dir w2 = AList.update (getConversationFilePath (conv_id (heap wg u)))
        (Json (heap w2 u)) (dir w)"
      using ad(4) g by (simp add: reportProgress_def emit_def)
  qed (use refused in simp_all)
next
  case (broke a w1 u w2 st e)
  note g = getConversation_frame [OF broke(1)]
  from broke(2) obtain wg where
    ad: "getConversation (conv_id (heap w1 a)) w1 = (Inr u, wg)"
      "heap w2 = (heap wg)(u := (heap wg u)\<lparr>messages := messages (heap wg u) @
            [\<lparr>role = User, content = arg_message args\<rparr>],
            updated_at := clock w1 (clock_reads w1)\<rparr>)"
      "trace w2 = trace w1 @ [Wrote (getConversationFilePath (conv_id (heap wg u))) (heap w2 u)]"
      "dir w2 = AList.update (getConversationFilePath (conv_id (heap wg u)))
           (Json (heap w2 u)) (dir w1)"
    by (rule addMessage_Inr)
  show ?thesis
  proof (rule that(3) [of u w2 "getConversationFilePath (conv_id (heap wg u))" "heap w2 u"
        "chat_request args (heap w2 a)" st e])
    show "user_append args w = (Inr u, w2)"
      using broke by (simp add: user_append_def)
    show "trace w2 = trace w @ [Progress 0,
        Wrote (getConversationFilePath (conv_id (heap wg u))) (heap w2 u)]"
      using ad(3) g by (simp add: reportProgress_def emit_def)
    show "last (messages (heap w2 u)) = \<lparr>role = User, content = arg_message args\<rparr>"
      by (simp add: ad(2))
    show "dir w2 = AList.update (getConversationFilePath (conv_id (heap wg u)))
        (Json (heap w2 u)) (dir w)"
      using ad(4) g by (simp add: reportProgress_def emit_def)
  qed (use broke in simp_all)
next
  case (assistant_not_appended a w1 u w2 st e)
  note g = getConversation_frame [OF assistant_not_appended(1)]
  from assistant_not_appended(2) obtain wg where
    ad: "getConversation (conv_id (heap w1 a)) w1 = (Inr u, wg)"
      "heap w2 = (heap wg)(u := (heap wg u)\<lparr>messages := messages (heap wg u) @
            [\<lparr>role = User, content = arg_message args\<rparr>],
            updated_at := clock w1 (clock_reads w1)\<rparr>)"
      "trace w2 = trace w1 @ [Wrote (getConversationFilePath (conv_id (heap wg u))) (heap w2 u)]"
      "dir w2 = AList.update (getConversationFilePath (conv_id (heap wg u)))
           (Json (heap w2 u)) (dir w1)"
    by (rule addMessage_Inr)
  note fl = addMessage_Inl [OF assistant_not_appended(5)]
  show ?thesis
  proof (rule that(4) [of u w2 "getConversationFilePath (conv_id (heap wg u))" "heap w2 u"
        "chat_request args (heap w2 a)" st e])
    show "user_append args w = (Inr u, w2)"
      using assistant_not_appended by (simp add: user_append_def)
    show "trace w2 = trace w @ [Progress 0,
        Wrote (getConversationFilePath (conv_id (heap wg u))) (heap w2 u)]"
      using ad(3) g by (simp add: reportProgress_def emit_def)
    show "last (messages (heap w2 u)) = \<lparr>role = User, content = arg_message args\<rparr>"
      by (simp add: ad(2))
    show "dir w2 = AList.update (getConversationFilePath (conv_id (heap wg u)))
        (Json (heap w2 u)) (dir w)"
      using ad(4) g by (simp add: reportProgress_def emit_def)
    show "trace w' = trace w2 @ Requested (chat_request args (heap w2 a)) #
        map Progress (ticks (length (chunks st))) @ [Progress 80]"
      using fl by simp
    show "dir w' = dir w2" using fl by simp
  qed (use assistant_not_appended in simp_all)
next
  case (complete a w1 u w2 st u' w6)
  note g = getConversation_frame [OF complete(1)]
  from complete(2) obtain wg where
    ad: "getConversation (conv_id (heap w1 a)) w1 = (Inr u, wg)"
      "heap w2 = (heap wg)(u := (heap wg u)\<lparr>messages := messages (heap wg u) @
            [\<lparr>role = User, content = arg_message args\<rparr>],
            updated_at := clock w1 (clock_reads w1)\<rparr>)"
      "conversations w2 = (conversations wg)(conv_id (heap wg u) \<mapsto> u)"
      "trace w2 = trace w1 @ [Wrote (getConversationFilePath (conv_id (heap wg u))) (heap w2 u)]"
      "dir w2 = AList.update (getConversationFilePath (conv_id (heap wg u)))
           (Json (heap w2 u)) (dir w1)"
    by (rule addMessage_Inr)
  let ?w5 = "w2\<lparr>trace := trace w2 @ Requested (chat_request args (heap w2 a)) #
              map Progress (ticks (length (chunks st))) @ [Progress 80]\<rparr>"
  from complete(5) obtain wh where
    ad2: "getConversation (conv_id (heap w2 a)) ?w5 = (Inr u', wh)"
      "heap w6 = (heap wh)(u' := (heap wh u')\<lparr>messages := messages (heap wh u') @
            [\<lparr>role = Assistant, content = fragments (chunks st)\<rparr>],
            updated_at := clock ?w5 (clock_reads ?w5)\<rparr>)"
      "trace w6 = trace ?w5 @ [Wrote (getConversationFilePath (conv_id (heap wh u'))) (heap w6 u')]"
      "dir w6 = AList.update (getConversationFilePath (conv_id (heap wh u')))
           (Json (heap w6 u')) (dir ?w5)"
    by (rule addMessage_Inr)
  show ?thesis
  proof (rule that(5) [of u w2 "getConversationFilePath (conv_id (heap wg u))" "heap w2 u"
        "chat_request args (heap w2 a)" st
        "getConversationFilePath (conv_id (heap wh u'))" "heap w6 u'"])
    show "user_append args w = (Inr u, w2)"
      using complete by (simp add: user_append_def)
    show "trace w2 = trace w @ [Progress 0,
        Wrote (getConversationFilePath (conv_id (heap wg u))) (heap w2 u)]"
      using ad(4) g by (simp add: reportProgress_def emit_def)
    show "last (messages (heap w2 u)) = \<lparr>role = User, content = arg_message args\<rparr>"
      by (simp add: ad(2))
    show "dir w2 = AList.update (getConversationFilePath (conv_id (heap wg u)))
        (Json (heap w2 u)) (dir w)"
      using ad(5) g by (simp add: reportProgress_def emit_def)
    show "trace w' = trace w2 @ Requested (chat_request args (heap w2 a)) #
        map Progress (ticks (length (chunks st))) @
        [Progress 80, Wrote (getConversationFilePath (conv_id (heap wh u'))) (heap w6 u'),
         Progress 100]"
      using ad2(3) complete(6) by (simp add: reportProgress_def emit_def)
    show "last (messages (heap w6 u')) =
        \<lparr>role = Assistant, content = fragments (chunks st)\<rparr>"
      by (simp add: ad2(2))
    show "dir w' = AList.update (getConversationFilePath (conv_id (heap wh u')))
        (Json (heap w6 u')) (dir w2)"
      using ad2(4) complete(6) by (simp add: reportProgress_def emit_def)
    show "getConversationFilePath (conv_id (heap wh u')) =
          getConversationFilePath (conv_id (heap wg u)) \<and>
        messages (heap w6 u') = messages (heap w2 u) @
          [\<lparr>role = Assistant, content = fragments (chunks st)\<rparr>]"
      if ok: "cache_ok w"
    proof -
      have ok0: "cache_ok (reportProgress 0 w)"
        using ok by (simp add: cache_ok_def reportProgress_def emit_def)
      note a1 = getConversation_allocated [OF complete(1) ok0]
      note a2 = getConversation_allocated [OF ad(1) a1(2)]
      have "a < allocated w1" by (rule a1(1))
      then have ha: "heap wg a = heap w1 a" by (rule a2(4))
      have cu: "conversations wg (conv_id (heap w1 a)) = Some u"
        by (rule getConversation_cached [OF ad(1)])
      have k: "conv_id (heap w2 a) = conv_id (heap w1 a)"
        using ha by (cases "a = u") (simp_all add: ad(2))
      have "conversations ?w5 (conv_id (heap w2 a)) = Some u"
        using cu by (simp add: k ad(3))
      then have "getConversation (conv_id (heap w2 a)) ?w5 = (Inr u, ?w5)"
        by (simp add: getConversation_def)
      with ad2(1) have e: "u' = u" "wh = ?w5" by simp_all
      show ?thesis
        by (simp add: e ad2(2) ad(2))
    qed
  qed (use complete in simp_all)
qed

lemmas eval_defs = chat_execute_def getConversation_def readConversation_def readFile_def
  fs_call_def addMessage_def updateConversation_def writeConversation_def
  ensureConversationDir_def mkdir_def writeFile_def modify_def Date_now_def emit_def
  reportProgress_def chat_request_def chatParams_def process_chunk_def chat_failed_def
  handleToolError_def getConversationFilePath_def nullish_def or_else_def Let_def
  world1_def world0_def conversation0_def sampling0_def args0_def openai0_def openai1_def

lemma ticks_bounds: "p \<in> set (ticks n) \<Longrightarrow> 30 < p \<and> p \<le> 80"
  by (auto simp: ticks_def ticks_from_def)

lemma progress_of_simps [simp]:
  "progress_of [] = []"
  "progress_of (Progress p # ev) = p # progress_of ev"
  "progress_of (Wrote f c # ev) = progress_of ev"
  "progress_of (Requested r # ev) = progress_of ev"
  "progress_of (ev @ ev') = progress_of ev @ progress_of ev'"
  "progress_of (map Progress ps) = ps"
  by (simp_all add: progress_of_def) (induction ps, simp_all)

lemma writes_of_simps [simp]:
  "writes_of [] = []"
  "writes_of (Progress p # ev) = writes_of ev"
  "writes_of (Wrote f c # ev) = (f, c) # writes_of ev"
  "writes_of (Requested r # ev) = writes_of ev"
  "writes_of (ev @ ev') = writes_of ev @ writes_of ev'"
  "writes_of (map Progress ps) = []"
  by (simp_all add: writes_of_def)

lemma requests_of_simps [simp]:
  "requests_of [] = []"
  "requests_of (Progress p # ev) = requests_of ev"
  "requests_of (Wrote f c # ev) = requests_of ev"
  "requests_of (Requested r # ev) = r # requests_of ev"
  "requests_of (ev @ ev') = requests_of ev @ requests_of ev'"
  "requests_of (map Progress ps) = []"
  by (simp_all add: requests_of_def)

lemma filter_io_ticks [simp]: "filter (\<lambda>e. progress_ev e = []) (map Progress ps) = []"
  by (induction ps) simp_all

section \<open>Chat turns\<close>

text \<open>
  C9. The progress values of a chat turn: 0 is the first thing the turn emits. In a turn
  that succeeds the values are 0, then the ticks of the counter over the chunks of the
  stream (it runs from 30 towards 80 by one per chunk, and reports each value below 40
  and each multiple of 5 after that), then 80 at the end of the stream, then 100, which
  follows the write of the conversation with the assistant message. A turn that fails
  emits an initial part of that sequence. No tick is above 80.
\<close>

theorem chat_progress_sequence:
  assumes "chat_execute openai args w = (res, w')"
  shows "\<exists>ev. trace w' = trace w @ ev \<and> take 1 ev = [Progress 0] \<and>
     (case res of
        Inr text \<Rightarrow> \<exists>req st f c1 f2 c2. openai req = Inr st \<and>
          ev = [Progress 0, Wrote f c1, Requested req] @
               map Progress (ticks (length (chunks st))) @
               [Progress 80, Wrote f2 c2, Progress 100] \<and>
          last (messages c2) = \<lparr>role = Assistant, content = text\<rparr> \<and>
          progress_of ev = 0 # ticks (length (chunks st)) @ [80, 100]
      | Inl e \<Rightarrow> progress_of ev = [0] \<or>
          (\<exists>req st. requests_of ev = [req] \<and> openai req = Inr st \<and>
             (progress_of ev = 0 # ticks (length (chunks st)) \<or>
              progress_of ev = 0 # ticks (length (chunks st)) @ [80]))) \<and>
     (\<forall>n. \<forall>p \<in> set (ticks n). 30 < p \<and> p \<le> 80) \<and>
     (\<forall>n. ticks n = filter (\<lambda>p. p < 40 \<or> p mod 5 = 0) [31 ..< Suc (min (30 + n) 80)])"
proof -
  have t: "\<forall>n. \<forall>p \<in> set (ticks n). 30 < p \<and> p \<le> 80"
    using ticks_bounds by blast
  have d: "\<forall>n. ticks n = filter (\<lambda>p. p < 40 \<or> p mod 5 = 0) [31 ..< Suc (min (30 + n) 80)]"
    by (simp add: ticks_def ticks_from_def)
  from assms have "\<exists>ev. trace w' = trace w @ ev \<and> take 1 ev = [Progress 0] \<and>
     (case res of
        Inr text \<Rightarrow> \<exists>req st f c1 f2 c2. openai req = Inr st \<and>
          ev = [Progress 0, Wrote f c1, Requested req] @
               map Progress (ticks (length (chunks st))) @
               [Progress 80, Wrote f2 c2, Progress 100] \<and>
          last (messages c2) = \<lparr>role = Assistant, content = text\<rparr> \<and>
          progress_of ev = 0 # ticks (length (chunks st)) @ [80, 100]
      | Inl e \<Rightarrow> progress_of ev = [0] \<or>
          (\<exists>req st. requests_of ev = [req] \<and> openai req = Inr st \<and>
             (progress_of ev = 0 # ticks (length (chunks st)) \<or>
              progress_of ev = 0 # ticks (length (chunks st)) @ [80])))"
  proof (cases rule: chat_execute_events)
    case (not_appended e)
    then show ?thesis by simp
  next
    case (refused a1 w2 f c1 req e)
    then show ?thesis by (simp add: emit_def)
  next
    case (broke a1 w2 f c1 req st e)
    then show ?thesis by auto
  next
    case (assistant_not_appended a1 w2 f c1 req st e)
    then show ?thesis by auto
  next
    case (complete a1 w2 f c1 req st f2 c2)
    show ?thesis
      apply (rule exI [of _ "[Progress 0, Wrote f c1, Requested req] @
               map Progress (ticks (length (chunks st))) @
               [Progress 80, Wrote f2 c2, Progress 100]"])
      using complete(2,5,7,8,11) by auto
  qed
  with t d show ?thesis by blast
qed

theorem chat_progress_sequence_witness:
  "progress_of (trace (snd (chat_execute openai0 args0 world1))) = [0, 31, 32, 80, 100]"
proof -
  have r: "fst (chat_execute openai0 args0 world1) = Inr ''Hello''"
    by (simp add: eval_defs)
  have t: "trace world1 = []" by (simp add: world1_def world0_def)
  have k: "ticks 2 = [31, 32]"
    by (simp add: ticks_def ticks_from_def upt_rec)
  have "chat_execute openai0 args0 world1 =
      (fst (chat_execute openai0 args0 world1), snd (chat_execute openai0 args0 world1))"
    by simp
  from chat_progress_sequence [OF this] show ?thesis
    by (auto simp: r t k openai0_def)
qed


text \<open>
  C3. Within a chat turn the file writes and the request to the completion API occur
  in one of three ways: none at all (the user message was not appended); the write of
  the conversation ending with the user message, then the request; or that write, the
  request, and then the write of the conversation ending with the assistant message.
  In particular no request is made when the append of the user message fails.
\<close>

theorem chat_turn_order:
  assumes "chat_execute openai args w = (res, w')"
  shows "\<exists>ev. trace w' = trace w @ ev \<and>
     ((filter (\<lambda>e. progress_ev e = []) ev = [] \<and> isl (fst (user_append args w)) \<and> isl res) \<or>
      (\<exists>f c1 req. filter (\<lambda>e. progress_ev e = []) ev = [Wrote f c1, Requested req] \<and>
         last (messages c1) = \<lparr>role = User, content = arg_message args\<rparr> \<and>
         \<not> isl (fst (user_append args w)) \<and> isl res) \<or>
      (\<exists>f c1 req f2 c2 text.
         filter (\<lambda>e. progress_ev e = []) ev = [Wrote f c1, Requested req, Wrote f2 c2] \<and>
         last (messages c1) = \<lparr>role = User, content = arg_message args\<rparr> \<and>
         last (messages c2) = \<lparr>role = Assistant, content = text\<rparr> \<and>
         \<not> isl (fst (user_append args w)) \<and> res = Inr text)) \<and>
     (isl (fst (user_append args w)) \<longrightarrow> requests_of ev = [])"
  using assms
proof (cases rule: chat_execute_events)
  case (not_appended e)
  then show ?thesis by simp
next
  case (refused a1 w2 f c1 req e)
  then show ?thesis by (simp add: emit_def)
next
  case (broke a1 w2 f c1 req st e)
  then show ?thesis by simp
next
  case (assistant_not_appended a1 w2 f c1 req st e)
  then show ?thesis by simp
next
  case (complete a1 w2 f c1 req st f2 c2)
  then show ?thesis by simp
qed

theorem chat_turn_order_witness:
  "filter (\<lambda>e. progress_ev e = []) (trace (snd (chat_execute openai0 args0 world1))) =
     [Wrote ''1.json'' (conversation0\<lparr>updated_at := ''2024-01-02T00:00:00.000Z'',
        messages := [\<lparr>role = System, content = ''S''\<rparr>, \<lparr>role = User, content = ''hi''\<rparr>]\<rparr>),
      Requested \<lparr>req_model = ''m'',
        req_messages = [\<lparr>role = System, content = ''S''\<rparr>, \<lparr>role = User, content = ''hi''\<rparr>],
        req_sampling = \<lparr>temperature = 7 / 10, max_tokens = 50000, top_p = 1,
          frequency_penalty = 0, presence_penalty = 0\<rparr>\<rparr>,
      Wrote ''1.json'' (conversation0\<lparr>updated_at := ''2024-01-02T00:00:00.000Z'',
        messages := [\<lparr>role = System, content = ''S''\<rparr>, \<lparr>role = User, content = ''hi''\<rparr>,
          \<lparr>role = Assistant, content = ''Hello''\<rparr>]\<rparr>)] \<and>
   \<not> isl (fst (user_append args0 world1))"
proof -
  have t: "trace (snd (chat_execute openai0 args0 world1)) =
     [Progress 0,
      Wrote ''1.json'' (conversation0\<lparr>updated_at := ''2024-01-02T00:00:00.000Z'',
        messages := [\<lparr>role = System, content = ''S''\<rparr>, \<lparr>role = User, content = ''hi''\<rparr>]\<rparr>),
      Requested \<lparr>req_model = ''m'',
        req_messages = [\<lparr>role = System, content = ''S''\<rparr>, \<lparr>role = User, content = ''hi''\<rparr>],
        req_sampling = \<lparr>temperature = 7 / 10, max_tokens = 50000, top_p = 1,
          frequency_penalty = 0, presence_penalty = 0\<rparr>\<rparr>,
      Progress 31, Progress 32, Progress 80,
      Wrote ''1.json'' (conversation0\<lparr>updated_at := ''2024-01-02T00:00:00.000Z'',
        messages := [\<lparr>role = System, content = ''S''\<rparr>, \<lparr>role = User, content = ''hi''\<rparr>,
          \<lparr>role = Assistant, content = ''Hello''\<rparr>]\<rparr>),
      Progress 100]"
    by (simp add: eval_defs)
  have "chat_execute openai0 args0 world1 =
      (fst (chat_execute openai0 args0 world1), snd (chat_execute openai0 args0 world1))"
    by simp
  moreover have z: "trace world1 = []" by (simp add: world1_def world0_def)
  moreover have r: "fst (chat_execute openai0 args0 world1) = Inr ''Hello''"
    by (simp add: eval_defs)
  ultimately show ?thesis
    using chat_turn_order [of openai0 args0 world1 "fst (chat_execute openai0 args0 world1)"
        "snd (chat_execute openai0 args0 world1)"]
    by (auto simp: t)
qed

text \<open>
  C1. When the request of a turn is refused or its stream breaks off, however many
  fragments were delivered, the turn fails and the objects in memory, the manager's Map
  and the directory are exactly as the append of the user message left them; the only
  write of the turn is that of the user message. A turn that returns a text returns all
  fragments of a stream that ended, after writing the conversation once with the user
  message and once more with that whole text as the assistant message. A turn that fails
  has written nothing, or the conversation with the user message only.
\<close>

theorem no_partial_append:
  assumes "chat_execute openai args w = (res, w')"
  shows "\<exists>ev. trace w' = trace w @ ev \<and>
     (\<forall>req. req \<in> set (requests_of ev) \<and>
          (isl (openai req) \<or> (\<exists>st e. openai req = Inr st \<and> failure st = Some e)) \<longrightarrow>
        isl res \<and>
        heap w' = heap (snd (user_append args w)) \<and>
        conversations w' = conversations (snd (user_append args w)) \<and>
        dir w' = dir (snd (user_append args w)) \<and>
        (\<exists>f c1. writes_of ev = [(f, c1)] \<and>
           last (messages c1) = \<lparr>role = User, content = arg_message args\<rparr>)) \<and>
     (case res of
        Inr text \<Rightarrow> \<exists>req st f c1 f2 c2.
          requests_of ev = [req] \<and> openai req = Inr st \<and> failure st = None \<and>
          text = fragments (chunks st) \<and>
          writes_of ev = [(f, c1), (f2, c2)] \<and>
          last (messages c1) = \<lparr>role = User, content = arg_message args\<rparr> \<and>
          last (messages c2) = \<lparr>role = Assistant, content = text\<rparr> \<and>
          dir w' = AList.update f2 (Json c2) (AList.update f (Json c1) (dir w)) \<and>
          (cache_ok w \<longrightarrow> f2 = f \<and>
             messages c2 = messages c1 @ [\<lparr>role = Assistant, content = text\<rparr>])
      | Inl e \<Rightarrow>
          (writes_of ev = [] \<and> dir w' = dir w) \<or>
          (\<exists>f c1. writes_of ev = [(f, c1)] \<and>
             last (messages c1) = \<lparr>role = User, content = arg_message args\<rparr> \<and>
             dir w' = AList.update f (Json c1) (dir w)))"
  using assms
proof (cases rule: chat_execute_events)
  case (not_appended e)
  then show ?thesis by simp
next
  case (refused a1 w2 f c1 req e)
  then show ?thesis by (simp add: emit_def)
next
  case (broke a1 w2 f c1 req st e)
  then show ?thesis by simp
next
  case (assistant_not_appended a1 w2 f c1 req st e)
  then show ?thesis by simp
next
  case (complete a1 w2 f c1 req st f2 c2)
  show ?thesis
    apply (rule exI [of _ "[Progress 0, Wrote f c1, Requested req] @
               map Progress (ticks (length (chunks st))) @
               [Progress 80, Wrote f2 c2, Progress 100]"])
    using complete by auto
qed

theorem no_partial_append_witness:
  "isl (fst (chat_execute openai1 args0 world1)) \<and>
   dir (snd (chat_execute openai1 args0 world1)) =
     [(''1.json'', Json (conversation0\<lparr>updated_at := ''2024-01-02T00:00:00.000Z'',
        messages := [\<lparr>role = System, content = ''S''\<rparr>, \<lparr>role = User, content = ''hi''\<rparr>]\<rparr>))] \<and>
   dir (snd (user_append args0 world1)) = dir (snd (chat_execute openai1 args0 world1))"
proof -
  have t: "requests_of (trace (snd (chat_execute openai1 args0 world1))) =
      [\<lparr>req_model = ''m'',
        req_messages = [\<lparr>role = System, content = ''S''\<rparr>, \<lparr>role = User, content = ''hi''\<rparr>],
        req_sampling = \<lparr>temperature = 7 / 10, max_tokens = 50000, top_p = 1,
          frequency_penalty = 0, presence_penalty = 0\<rparr>\<rparr>]"
    by (simp add: eval_defs)
  have u: "dir (snd (user_append args0 world1)) =
     [(''1.json'', Json (conversation0\<lparr>updated_at := ''2024-01-02T00:00:00.000Z'',
        messages := [\<lparr>role = System, content = ''S''\<rparr>, \<lparr>role = User, content = ''hi''\<rparr>]\<rparr>))]"
    by (simp add: user_append_def eval_defs)
  have z: "trace world1 = []" by (simp add: world1_def world0_def)
  have "chat_execute openai1 args0 world1 =
      (fst (chat_execute openai1 args0 world1), snd (chat_execute openai1 args0 world1))"
    by simp
  from no_partial_append [OF this] obtain ev where
    ev: "trace (snd (chat_execute openai1 args0 world1)) = trace world1 @ ev"
    and h: "\<forall>req. req \<in> set (requests_of ev) \<and>
          (isl (openai1 req) \<or> (\<exists>st e. openai1 req = Inr st \<and> failure st = Some e)) \<longrightarrow>
        isl (fst (chat_execute openai1 args0 world1)) \<and>
        dir (snd (chat_execute openai1 args0 world1)) = dir (snd (user_append args0 world1))"
    by blast
  from ev t z have "requests_of ev \<noteq> []" by simp
  then obtain req where "req \<in> set (requests_of ev)" by (cases "requests_of ev") auto
  moreover have "\<exists>st e. openai1 req = Inr st \<and> failure st = Some e"
    by (simp add: openai1_def)
  ultimately have "isl (fst (chat_execute openai1 args0 world1)) \<and>
        dir (snd (chat_execute openai1 args0 world1)) = dir (snd (user_append args0 world1))"
    using h by blast
  with u show ?thesis by simp
qed

section \<open>Sampling parameters of a turn\<close>

text \<open>
  The arguments that the schema lets through have all five fields set, from the call or
  from the process defaults, so the values of the request do not depend on the
  conversation.
\<close>

lemma sampling_schema_Some:
  assumes "sampling_schema d input = Some p"
  shows "temperature p = Some (nullish (opt_chain input temperature) (temperature d))"
    and "max_tokens p = Some (nullish (opt_chain input max_tokens) (max_tokens d))"
    and "top_p p = Some (nullish (opt_chain input top_p) (top_p d))"
    and "frequency_penalty p =
           Some (nullish (opt_chain input frequency_penalty) (frequency_penalty d))"
    and "presence_penalty p =
           Some (nullish (opt_chain input presence_penalty) (presence_penalty d))"
  using assms
  by (auto simp: sampling_schema_def Let_def nullish_def opt_chain_def no_sampling_def
      split: option.splits if_splits)

lemma chatParams_ignores_conversation:
  assumes "chatSchema cfg input = Inr args"
  shows "chatParams args c =
     \<lparr>temperature = nullish (opt_chain (in_chat_parameters input) temperature)
        (temperature (DEFAULT_SAMPLING cfg)),
      max_tokens = nullish (opt_chain (in_chat_parameters input) max_tokens)
        (max_tokens (DEFAULT_SAMPLING cfg)),
      top_p = nullish (opt_chain (in_chat_parameters input) top_p)
        (top_p (DEFAULT_SAMPLING cfg)),
      frequency_penalty = nullish (opt_chain (in_chat_parameters input) frequency_penalty)
        (frequency_penalty (DEFAULT_SAMPLING cfg)),
      presence_penalty = nullish (opt_chain (in_chat_parameters input) presence_penalty)
        (presence_penalty (DEFAULT_SAMPLING cfg))\<rparr>"
proof -
  from assms obtain p where p: "sampling_schema (DEFAULT_SAMPLING cfg) (in_chat_parameters input) = Some p"
    and a: "arg_chat_parameters args = p"
    by (auto simp: chatSchema_def split: option.splits)
  show ?thesis
    using sampling_schema_Some [OF p]
    by (simp add: chatParams_def a) (simp add: nullish_def)
qed

text \<open>
  C2. The conversation stored as 1.json has temperature 1/5, the process default is 7/10,
  and the chat call gives no parameters: the request carries 7/10, not the conversation's
  1/5.
\<close>

theorem chat_sends_default_not_stored_temperature:
  "map_of (dir world1) (getConversationFilePath (in_conversation_id input0)) =
     Some (Json conversation0) \<and>
   temperature (parameters conversation0) = 1 / 5 \<and>
   in_chat_parameters input0 = None \<and>
   temperature (DEFAULT_SAMPLING cfg0) = 7 / 10 \<and>
   map (\<lambda>req. temperature (req_sampling req))
     (requests_of (trace (snd (chat cfg0 openai0 input0 world1)))) = [7 / 10]"
  by (simp add: chat_def chatSchema_def sampling_schema_def sampling_checks_def no_sampling_def
      input0_def cfg0_def eval_defs)


section \<open>Listing\<close>

text \<open>
  C6, as the claim states it: with conversations created on day 1, day 2 and day 3, the
  filter from day 1 to day 3 would return the day-2 conversation only. It returns all
  three (most recently updated first).
\<close>

theorem list_conversations_bounds_included:
  "fst (list_conversations getTime0 between_days world3) =
     Inr [metadata_of_day ''3'' day3, metadata_of_day ''2'' day2, metadata_of_day ''1'' day1]"
  by (simp add: list_conversations_def list_conversations_execute_def
      ConversationManager_listConversations_def listConversations_def
      ensureConversationDir_def mkdir_def readdir_def entries_def fs_call_def
      readConversation_def readFile_def getConversationFilePath_def endsWith_def basename_def
      sort_with_def minus_time_def apply_filter_def time_ge_def time_le_def nullish_def
      getTime0_def day1_def day2_def day3_def world3_def world0_def between_days_def
      conversation_of_day_def metadata_of_day_def Let_def)


text \<open>
  C6, amended. With a filter that has only the two dates, both readable as dates, the
  tool returns the conversations of the unfiltered listing whose creation time is not
  before \<open>created_after\<close> and not after \<open>created_before\<close>, the bounds included, in the order
  of the listing; so for conversations created on day 1, day 2 and day 3 and the bounds
  day 1 and day 3 it returns all three.
\<close>

theorem list_conversations_date_filter:
  assumes "a \<noteq> []" and "b \<noteq> []" and "getTime a = Some ta" and "getTime b = Some tb"
  shows "list_conversations getTime
      \<lparr>arg_filter = Some \<lparr>filter_tags = None, created_after = Some a, created_before = Some b\<rparr>,
       limit = None, offset = None\<rparr> w =
     (case list_conversations getTime \<lparr>arg_filter = None, limit = None, offset = None\<rparr> w of
        (Inl e, w') \<Rightarrow> (Inl e, w')
      | (Inr l, w') \<Rightarrow>
          (Inr (filter (\<lambda>c. \<exists>t. getTime (created_at c) = Some t \<and> ta \<le> t \<and> t \<le> tb) l), w'))"
proof -
  have ge: "time_ge (getTime (created_at c)) (Some ta) \<and>
        time_le (getTime (created_at c)) (Some tb) \<longleftrightarrow>
      (\<exists>t. getTime (created_at c) = Some t \<and> ta \<le> t \<and> t \<le> tb)" for c :: ConversationMetadata
    by (auto simp: time_ge_def time_le_def split: option.splits)
  have f: "apply_filter getTime
      \<lparr>filter_tags = None, created_after = Some a, created_before = Some b\<rparr> l =
      filter (\<lambda>c. \<exists>t. getTime (created_at c) = Some t \<and> ta \<le> t \<and> t \<le> tb) l" for l
    using assms by (simp add: apply_filter_def Let_def ge conj_commute)
  show ?thesis
    by (simp add: list_conversations_def list_conversations_execute_def f nullish_def Let_def
        split: prod.splits sum.splits)
qed

theorem list_conversations_date_filter_witness:
  "fst (list_conversations getTime0 between_days world3) =
   fst (list_conversations getTime0 \<lparr>arg_filter = None, limit = None, offset = None\<rparr> world3)"
proof -
  have l: "list_conversations getTime0 \<lparr>arg_filter = None, limit = None, offset = None\<rparr> world3 =
     (Inr [metadata_of_day ''3'' day3, metadata_of_day ''2'' day2, metadata_of_day ''1'' day1],
      world3\<lparr>io_calls := 5\<rparr>)"
    by (simp add: list_conversations_def list_conversations_execute_def
      ConversationManager_listConversations_def listConversations_def
      ensureConversationDir_def mkdir_def readdir_def entries_def fs_call_def
      readConversation_def readFile_def getConversationFilePath_def endsWith_def basename_def
      sort_with_def minus_time_def nullish_def
      getTime0_def day1_def day2_def day3_def world3_def world0_def
      conversation_of_day_def metadata_of_day_def Let_def)
  have h: "day1 \<noteq> []" "day3 \<noteq> []" "getTime0 day1 = Some 1704067200000"
    "getTime0 day3 = Some 1704240000000"
    by (simp_all add: getTime0_def day1_def day2_def day3_def)
  have c: "created_at (metadata_of_day i d) = d" for i d
    by (simp add: metadata_of_day_def)
  have g: "getTime0 day2 = Some 1704153600000"
    by (simp add: getTime0_def day1_def day2_def day3_def)
  show ?thesis
    using list_conversations_date_filter [OF h, of world3]
    by (simp add: l between_days_def c h g)
qed

section \<open>Id allocation\<close>


















































section \<open>System messages\<close>










lemma appended_refl: "heap w1 = heap w \<Longrightarrow> allocated w1 = allocated w \<Longrightarrow> appended w w1"
  by (simp add: appended_def)










lemma appended_frame_left:
  assumes "appended w0 w1" and "heap w0 = heap w" and "allocated w0 = allocated w"
  shows "appended w w1"
  using assms by (simp add: appended_def)














end
